theory Spec2Isabelle
  imports Main "HOL-Library.Word" "HOL-Library.Sublist" "HOL-Library.Multiset" "HOL-Library.AList"
begin

section \<open>Data model (pkg/zfs/zfs.go)\<close>

text \<open>
  The three structs of the package. \<open>CreateTxg\<close> is an \<open>int64\<close>. A Go string is a
  sequence of bytes, here a \<open>string\<close> (a list of 8-bit characters).
\<close>

record Zpool =
  Name :: string

record Filesystem =
  Name :: string
  GUID :: string
  Origin :: string
  CreateTxg :: "64 word"

record Snapshot =
  Name :: string
  GUID :: string
  CreateTxg :: "64 word"

text \<open>
  \<open>map[string]*Filesystem\<close> and \<open>map[string]*Snapshot\<close>: every key owns a record of its
  own (each pointer is allocated when its key is first stored), so the map is a list of
  key/record pairs, read with \<open>map_of\<close> and written with \<open>AList.update\<close>, which
  overwrites the entry of a key that is present and adds an entry otherwise.
\<close>

type_synonym Filesystems = "(string \<times> Filesystem) list"
type_synonym Snapshots = "(string \<times> Snapshot) list"

text \<open>The zero values of the two structs (an unset Go variable), and the composite
  literals \<open>&Filesystem{Name: name}\<close> and \<open>&Snapshot{Name: name}\<close>.\<close>

definition zeroFilesystem :: Filesystem where
  "zeroFilesystem = \<lparr>Filesystem.Name = [], GUID = [], Origin = [], CreateTxg = 0\<rparr>"

definition zeroSnapshot :: Snapshot where
  "zeroSnapshot = \<lparr>Snapshot.Name = [], GUID = [], CreateTxg = 0\<rparr>"

definition newFilesystem :: "string \<Rightarrow> Filesystem" where
  "newFilesystem name = \<lparr>Filesystem.Name = name, GUID = [], Origin = [], CreateTxg = 0\<rparr>"

definition newSnapshot :: "string \<Rightarrow> Snapshot" where
  "newSnapshot name = \<lparr>Snapshot.Name = name, GUID = [], CreateTxg = 0\<rparr>"

section \<open>Errors\<close>

text \<open>
  Errors are values. \<open>ExitError\<close> is whatever \<open>os/exec\<close> reports for a command that
  could not be started or exited non-zero; \<open>NumError\<close> is \<open>strconv.NumError\<close> (function,
  input, cause); \<open>Errorf\<close> and \<open>Wrapf\<close> are the two constructors of
  \<open>github.com/pkg/errors\<close> the package calls, kept with their format string and
  operands rather than the rendered message.
\<close>

datatype numerr = ErrSyntax | ErrRange

datatype error =
    ExitError string
  | NumError string string numerr
  | Errorf string "string list"
  | Wrapf error string "string list"

section \<open>The external tool\<close>

text \<open>
  \<open>exec.Command(name, arg...)\<close> builds a command whose \<open>Path\<close> is \<open>name\<close> (the
  binary is given by its absolute path \<open>zfsPath\<close>, so no lookup takes place) and whose
  \<open>Args\<close> start with \<open>name\<close>.
\<close>

record Cmd =
  Path :: string
  Args :: "string list"

definition Command :: "string \<Rightarrow> string list \<Rightarrow> Cmd" where
  "Command name arg = \<lparr>Path = name, Args = name # arg\<rparr>"

definition zfsPath :: string where
  "zfsPath = ''/usr/sbin/zfs''"

text \<open>
  The tool is outside the program. It is a parameter of every operation: a function
  from the commands spawned so far and the command spawned now to either a failure or
  the bytes of standard output. Every operation takes the list of commands spawned so
  far and returns it extended, so that "no subprocess was spawned" is "the list is
  unchanged".
\<close>

type_synonym tool = "Cmd list \<Rightarrow> Cmd \<Rightarrow> error + string"

definition Output :: "tool \<Rightarrow> Cmd \<Rightarrow> Cmd list \<Rightarrow> (error + string) \<times> Cmd list" where
  "Output t cmd calls = (t calls cmd, calls @ [cmd])"

definition Run :: "tool \<Rightarrow> Cmd \<Rightarrow> Cmd list \<Rightarrow> error option \<times> Cmd list" where
  "Run t cmd calls =
     ((case t calls cmd of Inl err \<Rightarrow> Some err | Inr out \<Rightarrow> None), calls @ [cmd])"

section \<open>Library functions the package calls\<close>

subsection \<open>\<open>path.Base\<close>, \<open>strings.Join\<close>, \<open>getCommandString\<close> (init.go)\<close>

definition Base :: "string \<Rightarrow> string" where
  "Base p =
     (if p = [] then ''.''
      else let q = rev (dropWhile (\<lambda>c. c = CHR ''/'') (rev p)) in
        if q = [] then ''/'' else rev (takeWhile (\<lambda>c. c \<noteq> CHR ''/'') (rev q)))"

fun Join :: "string list \<Rightarrow> string \<Rightarrow> string" where
  "Join [] sep = []"
| "Join [x] sep = x"
| "Join (x # y # ys) sep = x @ sep @ Join (y # ys) sep"

definition getCommandString :: "Cmd \<Rightarrow> string" where
  "getCommandString cmd = Base (Path cmd) @ '' '' @ Join (drop 1 (Args cmd)) '' ''"

subsection \<open>\<open>strings.HasPrefix\<close> and \<open>strings.Split(s, "@")[0]\<close>\<close>

definition HasPrefix :: "string \<Rightarrow> string \<Rightarrow> bool" where
  "HasPrefix s p = prefix p s"

text \<open>The first element of \<open>strings.Split(s, "@")\<close>: the bytes before the first \<open>@\<close>,
  the whole string when it has none.\<close>

definition SplitAt0 :: "string \<Rightarrow> string" where
  "SplitAt0 s = takeWhile (\<lambda>c. c \<noteq> CHR ''@'') s"

subsection \<open>\<open>strconv.ParseInt(s, 10, 64)\<close>\<close>

definition isDigit :: "char \<Rightarrow> bool" where
  "isDigit c \<longleftrightarrow> (48::nat) \<le> of_char c \<and> of_char c \<le> (57::nat)"

text \<open>
  The loop of \<open>ParseUint\<close> in base 10 at 64 bits: a byte that is no digit is a syntax
  error; the value leaving 64 bits is a range error, reported at the digit where it
  happens.
\<close>

fun ParseUintLoop :: "nat \<Rightarrow> string \<Rightarrow> numerr + nat" where
  "ParseUintLoop n [] = Inr n"
| "ParseUintLoop n (c # cs) =
     (if \<not> isDigit c then Inl ErrSyntax
      else if n \<ge> 1844674407370955162 then Inl ErrRange
      else if n * 10 + (of_char c - 48) > 18446744073709551615 then Inl ErrRange
      else ParseUintLoop (n * 10 + (of_char c - 48)) cs)"

definition ParseUint :: "string \<Rightarrow> numerr + nat" where
  "ParseUint s = (if s = [] then Inl ErrSyntax else ParseUintLoop 0 s)"

definition ParseInt :: "string \<Rightarrow> error + 64 word" where
  "ParseInt s0 =
     (case s0 of
        [] \<Rightarrow> Inl (NumError ''ParseInt'' s0 ErrSyntax)
      | c # cs \<Rightarrow>
          let neg = (c = CHR ''-'');
              s = (if c = CHR ''+'' \<or> c = CHR ''-'' then cs else s0)
          in (case ParseUint s of
                Inl ErrSyntax \<Rightarrow> Inl (NumError ''ParseInt'' s0 ErrSyntax)
              | Inl ErrRange \<Rightarrow> Inl (NumError ''ParseInt'' s0 ErrRange)
              | Inr un \<Rightarrow>
                  if \<not> neg \<and> un \<ge> 9223372036854775808 then Inl (NumError ''ParseInt'' s0 ErrRange)
                  else if neg \<and> un > 9223372036854775808 then Inl (NumError ''ParseInt'' s0 ErrRange)
                  else Inr (if neg then - of_nat un else of_nat un)))"

subsection \<open>\<open>bufio.Scanner\<close> with the default split function \<open>ScanLines\<close>\<close>

text \<open>
  The lines \<open>for in.Scan() { ... in.Text() ... }\<close> visits: the input is cut at every
  line feed, one trailing carriage return is dropped from each line, and a last line
  that is not terminated is delivered unless it is empty. The scanner's buffer holds
  at most \<open>MaxScanTokenSize\<close> bytes: at a line of that many bytes or more \<open>Scan\<close>
  returns false, so the loop ends there as it does at the end of the input (the package
  never reads \<open>in.Err()\<close>).
\<close>

definition MaxScanTokenSize :: nat where
  "MaxScanTokenSize = 65536"

definition dropCR :: "string \<Rightarrow> string" where
  "dropCR s = (if s \<noteq> [] \<and> last s = CHR 0x0D then butlast s else s)"

fun ScanFrom :: "string \<Rightarrow> string \<Rightarrow> string list" where
  "ScanFrom cur [] =
     (if cur = [] \<or> length cur \<ge> MaxScanTokenSize then [] else [dropCR cur])"
| "ScanFrom cur (c # cs) =
     (if c = CHR 0x0A
      then (if length cur \<ge> MaxScanTokenSize then [] else dropCR cur # ScanFrom [] cs)
      else ScanFrom (cur @ [c]) cs)"

definition ScanLines :: "string \<Rightarrow> string list" where
  "ScanLines out = ScanFrom [] out"

subsection \<open>\<open>fmt.Sscanf\<close> with the formats \<open>"%s\t%s\t%s"\<close> and \<open>"%s\t%s"\<close>\<close>

text \<open>
  \<open>Sscanf\<close> reads its input rune by rune, decoding UTF-8 as \<open>utf8.DecodeRune\<close> does:
  \<open>DecodeRune\<close> returns the code point and the number of bytes it took, and the
  replacement character \<open>U+FFFD\<close> with one byte taken for a byte that starts no
  well-formed encoding.
\<close>

definition RuneError :: nat where
  "RuneError = 0xFFFD"

definition cont :: "nat \<Rightarrow> bool" where
  "cont b \<longleftrightarrow> 0x80 \<le> b \<and> b \<le> 0xBF"

fun DecodeRune :: "nat list \<Rightarrow> nat \<times> nat" where
  "DecodeRune [] = (RuneError, 0)"
| "DecodeRune (b0 # bs) =
     (if b0 < 0x80 then (b0, 1)
      else if 0xC2 \<le> b0 \<and> b0 \<le> 0xDF then
        (case bs of
           b1 # _ \<Rightarrow>
             if cont b1 then ((b0 mod 32) * 64 + b1 mod 64, 2) else (RuneError, 1)
         | _ \<Rightarrow> (RuneError, 1))
      else if 0xE0 \<le> b0 \<and> b0 \<le> 0xEF then
        (case bs of
           b1 # b2 # _ \<Rightarrow>
             if (if b0 = 0xE0 then 0xA0 else 0x80) \<le> b1
                \<and> b1 \<le> (if b0 = 0xED then 0x9F else 0xBF) \<and> cont b2
             then ((b0 mod 16) * 4096 + (b1 mod 64) * 64 + b2 mod 64, 3)
             else (RuneError, 1)
         | _ \<Rightarrow> (RuneError, 1))
      else if 0xF0 \<le> b0 \<and> b0 \<le> 0xF4 then
        (case bs of
           b1 # b2 # b3 # _ \<Rightarrow>
             if (if b0 = 0xF0 then 0x90 else 0x80) \<le> b1
                \<and> b1 \<le> (if b0 = 0xF4 then 0x8F else 0xBF) \<and> cont b2 \<and> cont b3
             then ((b0 mod 8) * 262144 + (b1 mod 64) * 4096 + (b2 mod 64) * 64 + b3 mod 64, 4)
             else (RuneError, 1)
         | _ \<Rightarrow> (RuneError, 1))
      else (RuneError, 1))"

text \<open>
  The input as the scanner sees it: each rune with the bytes it is written back as
  when it is copied into a token (\<open>utf8.EncodeRune\<close>: the bytes it was read from for a
  well-formed encoding, the three bytes of \<open>U+FFFD\<close> for a malformed byte).
\<close>

fun runes :: "string \<Rightarrow> (nat \<times> string) list" where
  "runes [] = []"
| "runes (c # cs) =
     (case DecodeRune (map of_char (take 4 (c # cs))) of
        (r, n) \<Rightarrow>
          (r, if r = RuneError then [CHR 0xEF, CHR 0xBF, CHR 0xBD] else take n (c # cs))
            # runes (drop (n - 1) cs))"

text \<open>The table \<open>space\<close> of \<open>fmt/scan.go\<close>.\<close>

definition isSpace :: "nat \<Rightarrow> bool" where
  "isSpace r \<longleftrightarrow>
     (0x0009 \<le> r \<and> r \<le> 0x000D) \<or> r = 0x0020 \<or> r = 0x0085 \<or> r = 0x00A0 \<or> r = 0x1680
     \<or> (0x2000 \<le> r \<and> r \<le> 0x200A) \<or> r = 0x2028 \<or> r = 0x2029 \<or> r = 0x202F
     \<or> r = 0x205F \<or> r = 0x3000"

text \<open>
  The verb \<open>%s\<close>: skip spaces; at the end of the input the scan stops with an error
  and this operand and the later ones keep their value, the empty string; otherwise the
  operand is the run of runes up to the next space. A tab in the format stands between
  two verbs and matches the spaces the next verb skips anyway. What follows the last
  operand is not read. The line holds no line feed, so the scanner's special cases for
  newlines do not arise.
\<close>

definition verb_s :: "(nat \<times> string) list \<Rightarrow> (string \<times> (nat \<times> string) list) option" where
  "verb_s inp =
     (let inp1 = dropWhile (\<lambda>(r, bs). isSpace r) inp in
      if inp1 = [] then None
      else Some (concat (map snd (takeWhile (\<lambda>(r, bs). \<not> isSpace r) inp1)),
                 dropWhile (\<lambda>(r, bs). \<not> isSpace r) inp1))"

definition Sscanf3 :: "string \<Rightarrow> string \<times> string \<times> string" where
  "Sscanf3 str =
     (case verb_s (runes str) of
        None \<Rightarrow> ([], [], [])
      | Some (name, r1) \<Rightarrow>
          (case verb_s r1 of
             None \<Rightarrow> (name, [], [])
           | Some (property, r2) \<Rightarrow>
               (case verb_s r2 of
                  None \<Rightarrow> (name, property, [])
                | Some (val, r3) \<Rightarrow> (name, property, val))))"

definition Sscanf2 :: "string \<Rightarrow> string \<times> string" where
  "Sscanf2 str =
     (case verb_s (runes str) of
        None \<Rightarrow> ([], [])
      | Some (property, r1) \<Rightarrow>
          (case verb_s r1 of
             None \<Rightarrow> (property, [])
           | Some (val, r2) \<Rightarrow> (property, val)))"

section \<open>The operations (pkg/zfs/zfs.go)\<close>

text \<open>
  A Go function returning \<open>(value, error)\<close> returns both: the result is a pair of the
  value and an \<open>error option\<close> (\<open>None\<close> for \<open>nil\<close>), next to the list of the commands
  spawned.
\<close>

subsection \<open>\<open>ListSnapshots\<close>\<close>

text \<open>
  The loop over the lines. In each round \<open>_, ok := l[name]; if !ok { l[name] =
  &Snapshot{Name: name} }; ds, _ := l[name]\<close> leaves \<open>ds\<close> pointing to the record stored
  under \<open>name\<close>, a new one when there was none (\<open>l1\<close> is the map after these statements);
  an assignment to a field of \<open>ds\<close> changes the record stored in the map. An error ends
  the loop and returns the map as it stands.
\<close>

fun scanSnapshots :: "Snapshots \<Rightarrow> string list \<Rightarrow> Snapshots \<times> error option" where
  "scanSnapshots l [] = (l, None)"
| "scanSnapshots l (line # rest) =
     (case Sscanf3 line of
        (name, property, val) \<Rightarrow>
          let l1 = (case map_of l name of
                      None \<Rightarrow> AList.update name (newSnapshot name) l
                    | Some d \<Rightarrow> l);
              ds = (case map_of l name of
                      None \<Rightarrow> newSnapshot name
                    | Some d \<Rightarrow> d)
          in if property = ''guid'' then
               scanSnapshots (AList.update name (ds\<lparr>Snapshot.GUID := val\<rparr>) l1) rest
             else if property = ''createtxg'' then
               (case ParseInt val of
                  Inl err \<Rightarrow>
                    (l1, Some (Wrapf err ''unable to convert createtxg value %q to int64'' [val]))
                | Inr p \<Rightarrow>
                    scanSnapshots (AList.update name (ds\<lparr>Snapshot.CreateTxg := p\<rparr>) l1) rest)
             else scanSnapshots l1 rest)"

definition ListSnapshots :: "tool \<Rightarrow> Zpool \<Rightarrow> Cmd list \<Rightarrow> (Snapshots \<times> error option) \<times> Cmd list" where
  "ListSnapshots t z calls =
     (let cmd = Command zfsPath [''get'', ''-t'', ''snapshot'', ''-Hro'', ''name,property,value'',
                                 ''guid,createtxg'', Zpool.Name z]
      in case Output t cmd calls of
           (Inl err, calls') \<Rightarrow>
             (([], Some (Wrapf err ''unable to run command %q'' [getCommandString cmd])), calls')
         | (Inr out, calls') \<Rightarrow> (scanSnapshots [] (ScanLines out), calls'))"

subsection \<open>\<open>ListFilesystems\<close>\<close>

fun scanFilesystems :: "Filesystems \<Rightarrow> string list \<Rightarrow> Filesystems \<times> error option" where
  "scanFilesystems l [] = (l, None)"
| "scanFilesystems l (line # rest) =
     (case Sscanf3 line of
        (name, property, val) \<Rightarrow>
          let l1 = (case map_of l name of
                      None \<Rightarrow> AList.update name (newFilesystem name) l
                    | Some d \<Rightarrow> l);
              ds = (case map_of l name of
                      None \<Rightarrow> newFilesystem name
                    | Some d \<Rightarrow> d)
          in if property = ''origin'' then
               scanFilesystems (AList.update name (ds\<lparr>Filesystem.Origin := val\<rparr>) l1) rest
             else if property = ''guid'' then
               scanFilesystems (AList.update name (ds\<lparr>Filesystem.GUID := val\<rparr>) l1) rest
             else if property = ''createtxg'' then
               (case ParseInt val of
                  Inl err \<Rightarrow>
                    (l1, Some (Wrapf err ''unable to convert createtxg value %q to int64'' [val]))
                | Inr p \<Rightarrow>
                    scanFilesystems (AList.update name (ds\<lparr>Filesystem.CreateTxg := p\<rparr>) l1) rest)
             else scanFilesystems l1 rest)"

definition ListFilesystems :: "tool \<Rightarrow> Zpool \<Rightarrow> Cmd list \<Rightarrow> (Filesystems \<times> error option) \<times> Cmd list" where
  "ListFilesystems t z calls =
     (let cmd = Command zfsPath [''get'', ''-t'', ''filesystem'', ''-Hro'', ''name,property,value'',
                                 ''origin,guid,createtxg'', Zpool.Name z]
      in case Output t cmd calls of
           (Inl err, calls') \<Rightarrow>
             (([], Some (Wrapf err ''unable to run command %q'' [getCommandString cmd])), calls')
         | (Inr out, calls') \<Rightarrow> (scanFilesystems [] (ScanLines out), calls'))"

subsection \<open>\<open>GetFilesystem\<close> and \<open>GetSnapshot\<close>\<close>

fun scanFilesystem :: "Filesystem \<Rightarrow> string list \<Rightarrow> Filesystem \<times> error option" where
  "scanFilesystem ds [] = (ds, None)"
| "scanFilesystem ds (line # rest) =
     (case Sscanf2 line of
        (property, val) \<Rightarrow>
          if property = ''name'' then scanFilesystem (ds\<lparr>Filesystem.Name := val\<rparr>) rest
          else if property = ''guid'' then scanFilesystem (ds\<lparr>Filesystem.GUID := val\<rparr>) rest
          else if property = ''createtxg'' then
            (case ParseInt val of
               Inl err \<Rightarrow>
                 (ds, Some (Wrapf err ''unable to parse createtxg value %q to int64'' [val]))
             | Inr p \<Rightarrow> scanFilesystem (ds\<lparr>Filesystem.CreateTxg := p\<rparr>) rest)
          else if property = ''origin'' then scanFilesystem (ds\<lparr>Filesystem.Origin := val\<rparr>) rest
          else scanFilesystem ds rest)"

definition GetFilesystem :: "tool \<Rightarrow> Zpool \<Rightarrow> string \<Rightarrow> Cmd list \<Rightarrow> (Filesystem \<times> error option) \<times> Cmd list" where
  "GetFilesystem t z name calls =
     (if HasPrefix name (Zpool.Name z) = False then
        ((zeroFilesystem,
          Some (Errorf ''bad request for filesystem %q on zpool %q'' [name, Zpool.Name z])), calls)
      else
        let cmd = Command zfsPath [''get'', ''-t'', ''filesystem'', ''-Ho'', ''property,value'',
                                   ''name,guid,createtxg,origin'', name]
        in case Output t cmd calls of
             (Inl err, calls') \<Rightarrow>
               ((zeroFilesystem, Some (Wrapf err ''filesystem %q not found'' [name])), calls')
           | (Inr out, calls') \<Rightarrow> (scanFilesystem zeroFilesystem (ScanLines out), calls'))"

fun scanSnapshot :: "Snapshot \<Rightarrow> string list \<Rightarrow> Snapshot \<times> error option" where
  "scanSnapshot ds [] = (ds, None)"
| "scanSnapshot ds (line # rest) =
     (case Sscanf2 line of
        (property, val) \<Rightarrow>
          if property = ''name'' then scanSnapshot (ds\<lparr>Snapshot.Name := val\<rparr>) rest
          else if property = ''guid'' then scanSnapshot (ds\<lparr>Snapshot.GUID := val\<rparr>) rest
          else if property = ''createtxg'' then
            (case ParseInt val of
               Inl err \<Rightarrow>
                 (ds, Some (Wrapf err ''unable to parse createtxg value %q to int64'' [val]))
             | Inr p \<Rightarrow> scanSnapshot (ds\<lparr>Snapshot.CreateTxg := p\<rparr>) rest)
          else scanSnapshot ds rest)"

definition GetSnapshot :: "tool \<Rightarrow> Zpool \<Rightarrow> string \<Rightarrow> Cmd list \<Rightarrow> (Snapshot \<times> error option) \<times> Cmd list" where
  "GetSnapshot t z name calls =
     (if HasPrefix name (Zpool.Name z) = False then
        ((zeroSnapshot,
          Some (Errorf ''bad request for snapshot %q on zpool %q'' [name, Zpool.Name z])), calls)
      else
        let cmd = Command zfsPath [''get'', ''-t'', ''snapshot'', ''-Ho'', ''property,value'',
                                   ''name,guid,createtxg'', name]
        in case Output t cmd calls of
             (Inl err, calls') \<Rightarrow>
               ((zeroSnapshot, Some (Errorf ''snapshot %q not found'' [name])), calls')
           | (Inr out, calls') \<Rightarrow> (scanSnapshot zeroSnapshot (ScanLines out), calls'))"

subsection \<open>\<open>CreateFilesystem\<close> and \<open>CreateSnapshot\<close>\<close>

definition CreateFilesystem :: "tool \<Rightarrow> Zpool \<Rightarrow> Filesystem \<Rightarrow> Cmd list \<Rightarrow> (Filesystem \<times> error option) \<times> Cmd list" where
  "CreateFilesystem t z fs calls =
     (if length (Filesystem.Name fs) = 0 \<or> Filesystem.CreateTxg fs \<noteq> 0
         \<or> HasPrefix (Filesystem.Name fs) (Zpool.Name z) = False then
        ((fs, Some (Errorf ''filesystem %q cannot be created on zpool %q''
                      [Filesystem.Name fs, Zpool.Name z])), calls)
      else
        let cmd = (if length (Filesystem.Origin fs) = 0 \<or> Filesystem.Origin fs = ''-''
                   then Command zfsPath [''create'', Filesystem.Name fs]
                   else Command zfsPath [''clone'', Filesystem.Origin fs, Filesystem.Name fs])
        in case Output t cmd calls of
             (Inl err, calls1) \<Rightarrow>
               ((fs, Some (Wrapf err ''unable to create filesystem %q'' [Filesystem.Name fs])),
                calls1)
           | (Inr out, calls1) \<Rightarrow>
               (case GetFilesystem t z (Filesystem.Name fs) calls1 of
                  ((n, Some err), calls2) \<Rightarrow>
                    ((fs, Some (Wrapf err ''unable to retrieve filesystem %q after creation''
                                  [Filesystem.Name fs])), calls2)
                | ((n, None), calls2) \<Rightarrow> ((n, None), calls2)))"

definition CreateSnapshot :: "tool \<Rightarrow> Zpool \<Rightarrow> string \<Rightarrow> Cmd list \<Rightarrow> (Snapshot \<times> error option) \<times> Cmd list" where
  "CreateSnapshot t z snapshotName calls =
     (if length snapshotName = 0 \<or> HasPrefix snapshotName (Zpool.Name z) = False then
        ((zeroSnapshot, Some (Errorf ''snapshot %q cannot be created on zpool %q''
                                [snapshotName, Zpool.Name z])), calls)
      else
        let cmd = Command zfsPath [''snapshot'', snapshotName]
        in case Output t cmd calls of
             (Inl err, calls1) \<Rightarrow>
               ((zeroSnapshot, Some (Wrapf err ''unable to create snapshot %q'' [snapshotName])),
                calls1)
           | (Inr out, calls1) \<Rightarrow>
               (case GetSnapshot t z snapshotName calls1 of
                  ((snap, Some err), calls2) \<Rightarrow>
                    ((snap, Some (Wrapf err ''unable to retrieve snapshot %q after creation''
                                    [Snapshot.Name snap])), calls2)
                | ((snap, None), calls2) \<Rightarrow> ((snap, None), calls2)))"

subsection \<open>\<open>ClonesOf\<close> and \<open>SnapshotsOf\<close>\<close>

text \<open>
  \<open>for _, fs := range l\<close> visits every entry of the map once, in an order the Go
  runtime chooses. The order is the parameter \<open>rng\<close>: it maps the entries to the
  sequence in which the loop visits them.
\<close>

definition ClonesOf :: "(Filesystems \<Rightarrow> Filesystems) \<Rightarrow> tool \<Rightarrow> Zpool \<Rightarrow> Snapshot \<Rightarrow> Cmd list
    \<Rightarrow> (Filesystem list \<times> error option) \<times> Cmd list" where
  "ClonesOf rng t z s calls =
     (case ListFilesystems t z calls of
        ((l, Some err), calls') \<Rightarrow> (([], Some err), calls')
      | ((l, None), calls') \<Rightarrow>
          ((filter (\<lambda>fs. Filesystem.Origin fs = Snapshot.Name s) (map snd (rng l)), None), calls'))"

definition SnapshotsOf :: "(Snapshots \<Rightarrow> Snapshots) \<Rightarrow> tool \<Rightarrow> Zpool \<Rightarrow> Filesystem \<Rightarrow> Cmd list
    \<Rightarrow> (Snapshot list \<times> error option) \<times> Cmd list" where
  "SnapshotsOf rng t z fs calls =
     (case ListSnapshots t z calls of
        ((l, Some err), calls') \<Rightarrow> (([], Some err), calls')
      | ((l, None), calls') \<Rightarrow>
          ((filter (\<lambda>ds. SplitAt0 (Snapshot.Name ds) = Filesystem.Name fs) (map snd (rng l)), None),
           calls'))"

subsection \<open>\<open>ExistsByName\<close>\<close>

definition ExistsByName :: "tool \<Rightarrow> Zpool \<Rightarrow> string \<Rightarrow> Cmd list \<Rightarrow> bool \<times> Cmd list" where
  "ExistsByName t z name calls =
     (if length name = 0 \<or> HasPrefix name (Zpool.Name z) = False then (False, calls)
      else case Run t (Command zfsPath [''get'', ''-Ho'', ''value'', ''name'', name]) calls of
             (Some err, calls') \<Rightarrow> (False, calls')
           | (None, calls') \<Rightarrow> (True, calls'))"

section \<open>Commands, predicates and test data the theorems name\<close>

text \<open>The command \<open>CreateFilesystem\<close> builds for a request, and the queries of
  \<open>GetFilesystem\<close>, \<open>GetSnapshot\<close> and \<open>ExistsByName\<close>.\<close>

definition createCmd :: "Filesystem \<Rightarrow> Cmd" where
  "createCmd fs =
     (if Filesystem.Origin fs = [] \<or> Filesystem.Origin fs = ''-''
      then Command zfsPath [''create'', Filesystem.Name fs]
      else Command zfsPath [''clone'', Filesystem.Origin fs, Filesystem.Name fs])"

definition snapshotCmd :: "string \<Rightarrow> Cmd" where
  "snapshotCmd name = Command zfsPath [''snapshot'', name]"

definition getFilesystemCmd :: "string \<Rightarrow> Cmd" where
  "getFilesystemCmd name =
     Command zfsPath [''get'', ''-t'', ''filesystem'', ''-Ho'', ''property,value'',
                      ''name,guid,createtxg,origin'', name]"

definition getSnapshotCmd :: "string \<Rightarrow> Cmd" where
  "getSnapshotCmd name =
     Command zfsPath [''get'', ''-t'', ''snapshot'', ''-Ho'', ''property,value'',
                      ''name,guid,createtxg'', name]"

definition listFilesystemsCmd :: "Zpool \<Rightarrow> Cmd" where
  "listFilesystemsCmd z =
     Command zfsPath [''get'', ''-t'', ''filesystem'', ''-Hro'', ''name,property,value'',
                      ''origin,guid,createtxg'', Zpool.Name z]"

definition listSnapshotsCmd :: "Zpool \<Rightarrow> Cmd" where
  "listSnapshotsCmd z =
     Command zfsPath [''get'', ''-t'', ''snapshot'', ''-Hro'', ''name,property,value'',
                      ''guid,createtxg'', Zpool.Name z]"

definition probeCmd :: "string \<Rightarrow> Cmd" where
  "probeCmd name = Command zfsPath [''get'', ''-Ho'', ''value'', ''name'', name]"

text \<open>
  A line carries a malformed \<open>createtxg\<close> as the parser reads it: the property the
  scan assigns is \<open>createtxg\<close> and the value it assigns is refused by \<open>ParseInt\<close>.
  \<open>malformed3\<close> is for the three-operand scan of the list operations, \<open>malformed2\<close>
  for the two-operand scan of the get operations.
\<close>

definition malformed3 :: "string \<Rightarrow> bool" where
  "malformed3 line =
     (case Sscanf3 line of (name, property, val) \<Rightarrow> property = ''createtxg'' \<and> isl (ParseInt val))"

definition malformed2 :: "string \<Rightarrow> bool" where
  "malformed2 line =
     (case Sscanf2 line of (property, val) \<Rightarrow> property = ''createtxg'' \<and> isl (ParseInt val))"

text \<open>
  The columns of a line as the tool prints it (\<open>zfs get -H\<close>) and as the specification's
  grammar has it, for comparison with the scan: the pieces between the tab characters.
\<close>

fun spec_columns_from :: "string \<Rightarrow> string \<Rightarrow> string list" where
  "spec_columns_from cur [] = [cur]"
| "spec_columns_from cur (c # cs) =
     (if c = CHR 0x09 then cur # spec_columns_from [] cs else spec_columns_from (cur @ [c]) cs)"

definition spec_columns :: "string \<Rightarrow> string list" where
  "spec_columns line = spec_columns_from [] line"

text \<open>Tools and inputs for the concrete instances: a tool that fails every command, one
  that answers every command with the same output, and one that fails the \<open>get\<close>
  queries only; lines of the two forms the tool prints, without and with the line feed.\<close>

definition failing :: tool where
  "failing = (\<lambda>calls cmd. Inl (ExitError ''exit status 1''))"

definition answering :: "string \<Rightarrow> tool" where
  "answering out = (\<lambda>calls cmd. Inr out)"

definition failingGet :: tool where
  "failingGet =
     (\<lambda>calls cmd. if ''get'' \<in> set (Args cmd) then Inl (ExitError ''exit status 1'') else Inr [])"

definition line3 :: "string \<Rightarrow> string \<Rightarrow> string \<Rightarrow> string" where
  "line3 name property val = name @ [CHR 0x09] @ property @ [CHR 0x09] @ val"

definition line2 :: "string \<Rightarrow> string \<Rightarrow> string" where
  "line2 property val = property @ [CHR 0x09] @ val"

definition row3 :: "string \<Rightarrow> string \<Rightarrow> string \<Rightarrow> string" where
  "row3 name property val = line3 name property val @ [CHR 0x0A]"

definition row2 :: "string \<Rightarrow> string \<Rightarrow> string" where
  "row2 property val = line2 property val @ [CHR 0x0A]"

definition tank :: Zpool where
  "tank = \<lparr>Zpool.Name = ''tank''\<rparr>"

definition stream3 :: string where
  "stream3 =
     row3 ''ds1'' ''guid'' ''G1'' @ row3 ''ds1'' ''createtxg'' ''42'' @ row3 ''ds2'' ''guid'' ''G2''"

definition fsReply :: string where
  "fsReply =
     row2 ''name'' ''tank/a'' @ row2 ''guid'' ''G7'' @ row2 ''createtxg'' ''9'' @ row2 ''origin'' ''-''"

definition snapReply :: string where
  "snapReply = row2 ''name'' ''tank/a@s'' @ row2 ''guid'' ''G8'' @ row2 ''createtxg'' ''11''"

definition pool :: Zpool where
  "pool = \<lparr>Zpool.Name = ''pool''\<rparr>"

definition badList :: string where
  "badList = row3 ''ds1'' ''guid'' ''G1'' @ row3 ''ds1'' ''createtxg'' ''4x''"

definition badGet :: string where
  "badGet = row2 ''name'' ''tank/a'' @ row2 ''createtxg'' ''4x''"

definition snapStream :: string where
  "snapStream =
     row3 ''pool/f@a'' ''guid'' ''1''
     @ row3 ''pool/f2@b'' ''guid'' ''2''
     @ row3 ''pool/f@c'' ''guid'' ''3''"

definition cloneStream :: string where
  "cloneStream =
     row3 ''tank/c1'' ''origin'' ''tank/a@s''
     @ row3 ''tank/a'' ''origin'' ''-''
     @ row3 ''tank/c2'' ''origin'' ''tank/a@s''
     @ row3 ''tank/c2'' ''guid'' ''G2''"

section \<open>Lemmas\<close>

subsection \<open>The commands an operation spawns\<close>

lemma GetFilesystem_calls:
  "snd (GetFilesystem t z name calls) =
     (if prefix (Zpool.Name z) name then calls @ [getFilesystemCmd name] else calls)"
  by (simp add: GetFilesystem_def HasPrefix_def Output_def Let_def getFilesystemCmd_def
        split: sum.splits)

lemma GetSnapshot_calls:
  "snd (GetSnapshot t z name calls) =
     (if prefix (Zpool.Name z) name then calls @ [getSnapshotCmd name] else calls)"
  by (simp add: GetSnapshot_def HasPrefix_def Output_def Let_def getSnapshotCmd_def
        split: sum.splits)

lemma CreateFilesystem_valid:
  assumes "Filesystem.Name fs \<noteq> []" "Filesystem.CreateTxg fs = 0"
    "prefix (Zpool.Name z) (Filesystem.Name fs)"
  shows "CreateFilesystem t z fs calls =
     (case t calls (createCmd fs) of
        Inl err \<Rightarrow>
          ((fs, Some (Wrapf err ''unable to create filesystem %q'' [Filesystem.Name fs])),
           calls @ [createCmd fs])
      | Inr out \<Rightarrow>
          (case GetFilesystem t z (Filesystem.Name fs) (calls @ [createCmd fs]) of
             ((n, Some err), calls2) \<Rightarrow>
               ((fs, Some (Wrapf err ''unable to retrieve filesystem %q after creation''
                             [Filesystem.Name fs])), calls2)
           | ((n, None), calls2) \<Rightarrow> ((n, None), calls2)))"
  using assms
  by (simp add: CreateFilesystem_def HasPrefix_def Output_def Let_def createCmd_def
        split: sum.splits)

lemma CreateSnapshot_valid:
  assumes "name \<noteq> []" "prefix (Zpool.Name z) name"
  shows "CreateSnapshot t z name calls =
     (case t calls (snapshotCmd name) of
        Inl err \<Rightarrow>
          ((zeroSnapshot, Some (Wrapf err ''unable to create snapshot %q'' [name])),
           calls @ [snapshotCmd name])
      | Inr out \<Rightarrow>
          (case GetSnapshot t z name (calls @ [snapshotCmd name]) of
             ((snap, Some err), calls2) \<Rightarrow>
               ((snap, Some (Wrapf err ''unable to retrieve snapshot %q after creation''
                               [Snapshot.Name snap])), calls2)
           | ((snap, None), calls2) \<Rightarrow> ((snap, None), calls2)))"
  using assms
  by (simp add: CreateSnapshot_def HasPrefix_def Output_def Let_def snapshotCmd_def
        split: sum.splits)

lemma CreateFilesystem_calls:
  "snd (CreateFilesystem t z fs calls) =
     (if Filesystem.Name fs = [] \<or> Filesystem.CreateTxg fs \<noteq> 0
         \<or> \<not> prefix (Zpool.Name z) (Filesystem.Name fs)
      then calls
      else calls @ createCmd fs #
             (case t calls (createCmd fs) of
                Inl err \<Rightarrow> []
              | Inr out \<Rightarrow> [getFilesystemCmd (Filesystem.Name fs)]))"
proof (cases "Filesystem.Name fs = [] \<or> Filesystem.CreateTxg fs \<noteq> 0
    \<or> \<not> prefix (Zpool.Name z) (Filesystem.Name fs)")
  case True
  then show ?thesis by (auto simp: CreateFilesystem_def HasPrefix_def)
next
  case False
  then have v: "Filesystem.Name fs \<noteq> []" "Filesystem.CreateTxg fs = 0"
    "prefix (Zpool.Name z) (Filesystem.Name fs)" by auto
  show ?thesis
  proof (cases "t calls (createCmd fs)")
    case (Inl err)
    with v show ?thesis by (simp add: CreateFilesystem_valid)
  next
    case (Inr out)
    obtain n e c2 where g: "GetFilesystem t z (Filesystem.Name fs) (calls @ [createCmd fs]) = ((n, e), c2)"
      by (metis surj_pair)
    with GetFilesystem_calls [of t z "Filesystem.Name fs" "calls @ [createCmd fs]"] v
    have "c2 = calls @ [createCmd fs, getFilesystemCmd (Filesystem.Name fs)]" by simp
    with v Inr g show ?thesis by (cases e) (simp_all add: CreateFilesystem_valid)
  qed
qed

lemma CreateSnapshot_calls:
  "snd (CreateSnapshot t z name calls) =
     (if name = [] \<or> \<not> prefix (Zpool.Name z) name then calls
      else calls @ snapshotCmd name #
             (case t calls (snapshotCmd name) of
                Inl err \<Rightarrow> []
              | Inr out \<Rightarrow> [getSnapshotCmd name]))"
proof (cases "name = [] \<or> \<not> prefix (Zpool.Name z) name")
  case True
  then show ?thesis by (auto simp: CreateSnapshot_def HasPrefix_def)
next
  case False
  then have v: "name \<noteq> []" "prefix (Zpool.Name z) name" by auto
  show ?thesis
  proof (cases "t calls (snapshotCmd name)")
    case (Inl err)
    with v show ?thesis by (simp add: CreateSnapshot_valid)
  next
    case (Inr out)
    obtain n e c2 where g: "GetSnapshot t z name (calls @ [snapshotCmd name]) = ((n, e), c2)"
      by (metis surj_pair)
    with GetSnapshot_calls [of t z name "calls @ [snapshotCmd name]"] v
    have "c2 = calls @ [snapshotCmd name, getSnapshotCmd name]" by simp
    with v Inr g show ?thesis by (cases e) (simp_all add: CreateSnapshot_valid)
  qed
qed

lemma ListFilesystems_ok:
  "t calls (listFilesystemsCmd z) = Inr out \<Longrightarrow>
   ListFilesystems t z calls = (scanFilesystems [] (ScanLines out), calls @ [listFilesystemsCmd z])"
  by (simp add: ListFilesystems_def listFilesystemsCmd_def Output_def Let_def)

lemma ListSnapshots_ok:
  "t calls (listSnapshotsCmd z) = Inr out \<Longrightarrow>
   ListSnapshots t z calls = (scanSnapshots [] (ScanLines out), calls @ [listSnapshotsCmd z])"
  by (simp add: ListSnapshots_def listSnapshotsCmd_def Output_def Let_def)

lemma ListFilesystems_cases:
  "(\<exists>err. t calls (listFilesystemsCmd z) = Inl err \<and> snd (fst (ListFilesystems t z calls)) \<noteq> None)
   \<or> (\<exists>out. t calls (listFilesystemsCmd z) = Inr out
        \<and> fst (ListFilesystems t z calls) = scanFilesystems [] (ScanLines out))"
  by (cases "t calls (listFilesystemsCmd z)")
    (simp_all add: ListFilesystems_def listFilesystemsCmd_def Output_def Let_def)

lemma ListSnapshots_cases:
  "(\<exists>err. t calls (listSnapshotsCmd z) = Inl err \<and> snd (fst (ListSnapshots t z calls)) \<noteq> None)
   \<or> (\<exists>out. t calls (listSnapshotsCmd z) = Inr out
        \<and> fst (ListSnapshots t z calls) = scanSnapshots [] (ScanLines out))"
  by (cases "t calls (listSnapshotsCmd z)")
    (simp_all add: ListSnapshots_def listSnapshotsCmd_def Output_def Let_def)

lemma GetFilesystem_ok:
  "prefix (Zpool.Name z) name \<Longrightarrow> t calls (getFilesystemCmd name) = Inr out \<Longrightarrow>
   GetFilesystem t z name calls =
     (scanFilesystem zeroFilesystem (ScanLines out), calls @ [getFilesystemCmd name])"
  by (simp add: GetFilesystem_def getFilesystemCmd_def HasPrefix_def Output_def Let_def)

lemma GetSnapshot_ok:
  "prefix (Zpool.Name z) name \<Longrightarrow> t calls (getSnapshotCmd name) = Inr out \<Longrightarrow>
   GetSnapshot t z name calls =
     (scanSnapshot zeroSnapshot (ScanLines out), calls @ [getSnapshotCmd name])"
  by (simp add: GetSnapshot_def getSnapshotCmd_def HasPrefix_def Output_def Let_def)

subsection \<open>The scanning loops\<close>

lemma ParseInt_error: "ParseInt v = Inl err \<Longrightarrow> \<exists>k. err = NumError ''ParseInt'' v k"
  by (auto simp: ParseInt_def Let_def split: list.splits sum.splits numerr.splits if_splits)

lemma scanFilesystems_Cons:
  assumes "Sscanf3 line = (name, property, val)"
  shows "scanFilesystems l (line # rest) =
     (let l1 = (case map_of l name of None \<Rightarrow> AList.update name (newFilesystem name) l | Some d \<Rightarrow> l);
          ds = (case map_of l name of None \<Rightarrow> newFilesystem name | Some d \<Rightarrow> d)
      in if property = ''origin'' then
           scanFilesystems (AList.update name (ds\<lparr>Filesystem.Origin := val\<rparr>) l1) rest
         else if property = ''guid'' then
           scanFilesystems (AList.update name (ds\<lparr>Filesystem.GUID := val\<rparr>) l1) rest
         else if property = ''createtxg'' then
           (case ParseInt val of
              Inl err \<Rightarrow>
                (l1, Some (Wrapf err ''unable to convert createtxg value %q to int64'' [val]))
            | Inr p \<Rightarrow> scanFilesystems (AList.update name (ds\<lparr>Filesystem.CreateTxg := p\<rparr>) l1) rest)
         else scanFilesystems l1 rest)"
  using assms by simp

lemma scanFilesystems_malformed:
  "\<exists>line \<in> set lines. malformed3 line \<Longrightarrow>
   \<exists>v k. snd (scanFilesystems l lines) =
      Some (Wrapf (NumError ''ParseInt'' v k) ''unable to convert createtxg value %q to int64'' [v])
      \<and> ParseInt v = Inl (NumError ''ParseInt'' v k)"
proof (induction lines arbitrary: l)
  case Nil
  then show ?case by simp
next
  case (Cons line rest)
  obtain name property val where sc: "Sscanf3 line = (name, property, val)"
    by (cases "Sscanf3 line") auto
  note step = scanFilesystems_Cons [OF sc, of l rest]
  show ?case
  proof (cases "malformed3 line")
    case True
    with sc obtain err where p: "property = ''createtxg''" "ParseInt val = Inl err"
      by (cases "ParseInt val") (auto simp: malformed3_def)
    then obtain k where "err = NumError ''ParseInt'' val k"
      using ParseInt_error by blast
    with p step show ?thesis by (simp add: Let_def)
  next
    case False
    with Cons.prems have r: "\<exists>line \<in> set rest. malformed3 line" by auto
    from False sc have ok: "property = ''createtxg'' \<Longrightarrow> \<exists>p. ParseInt val = Inr p"
      by (cases "ParseInt val") (auto simp: malformed3_def)
    show ?thesis
    proof (cases "property = ''createtxg''")
      case True
      with ok obtain p where "ParseInt val = Inr p" by blast
      with True step Cons.IH [OF r] show ?thesis by (simp add: Let_def)
    next
      case False
      with step Cons.IH [OF r] show ?thesis by (simp add: Let_def)
    qed
  qed
qed

lemma scanFilesystems_keys:
  "distinct (map fst l) \<Longrightarrow> (\<forall>k d. map_of l k = Some d \<longrightarrow> Filesystem.Name d = k) \<Longrightarrow>
   distinct (map fst (fst (scanFilesystems l lines)))
   \<and> (\<forall>k d. map_of (fst (scanFilesystems l lines)) k = Some d \<longrightarrow> Filesystem.Name d = k)"
proof (induction lines arbitrary: l)
  case Nil
  then show ?case by simp
next
  case (Cons line rest)
  obtain name property val where sc: "Sscanf3 line = (name, property, val)"
    by (cases "Sscanf3 line") auto
  define l1 where "l1 = (case map_of l name of
      None \<Rightarrow> AList.update name (newFilesystem name) l | Some d \<Rightarrow> l)"
  define ds where "ds = (case map_of l name of None \<Rightarrow> newFilesystem name | Some d \<Rightarrow> d)"
  have ds: "Filesystem.Name ds = name"
    using Cons.prems(2)
    by (auto simp: ds_def newFilesystem_def simp del: map_of_eq_Some_iff split: option.splits)
  have l1: "distinct (map fst l1)" "\<forall>k d. map_of l1 k = Some d \<longrightarrow> Filesystem.Name d = k"
    using Cons.prems
    by (auto simp: l1_def newFilesystem_def distinct_update update_conv' simp del: map_of_eq_Some_iff
          split: option.splits if_splits)
  have upd: "distinct (map fst (AList.update name d l1))
      \<and> (\<forall>k d'. map_of (AList.update name d l1) k = Some d' \<longrightarrow> Filesystem.Name d' = k)"
    if "Filesystem.Name d = name" for d
    using l1 that
    by (auto simp: distinct_update update_conv' simp del: map_of_eq_Some_iff split: if_splits)
  have upd': "distinct (map fst (fst (scanFilesystems (AList.update name d l1) rest)))
      \<and> (\<forall>k d'. map_of (fst (scanFilesystems (AList.update name d l1) rest)) k = Some d'
            \<longrightarrow> Filesystem.Name d' = k)"
    if "Filesystem.Name d = name" for d
    using upd [OF that] Cons.IH [of "AList.update name d l1"] by blast
  have keep: "distinct (map fst (fst (scanFilesystems l1 rest)))
      \<and> (\<forall>k d'. map_of (fst (scanFilesystems l1 rest)) k = Some d' \<longrightarrow> Filesystem.Name d' = k)"
    using l1 Cons.IH [of l1] by blast
  note step = scanFilesystems_Cons [OF sc, of l rest, folded l1_def ds_def, unfolded Let_def]
  show ?case
  proof (cases "property = ''origin''")
    case True
    with step upd' [of "ds\<lparr>Filesystem.Origin := val\<rparr>"] ds show ?thesis by simp
  next
    case no: False
    show ?thesis
    proof (cases "property = ''guid''")
      case True
      with no step upd' [of "ds\<lparr>Filesystem.GUID := val\<rparr>"] ds show ?thesis by simp
    next
      case ng: False
      show ?thesis
      proof (cases "property = ''createtxg''")
        case True
        show ?thesis
        proof (cases "ParseInt val")
          case (Inl err)
          with True no ng step l1 show ?thesis by simp
        next
          case (Inr p)
          with True no ng step upd' [of "ds\<lparr>Filesystem.CreateTxg := p\<rparr>"] ds show ?thesis by simp
        qed
      next
        case False
        with no ng step keep show ?thesis by simp
      qed
    qed
  qed
qed

lemma scanFilesystems_keyed:
  "(l, e) = scanFilesystems [] lines \<Longrightarrow>
   distinct (map fst l) \<and> (\<forall>(k, d) \<in> set l. Filesystem.Name d = k) \<and> distinct (map snd l)"
proof -
  assume r: "(l, e) = scanFilesystems [] lines"
  have inv: "distinct (map fst l)" "\<forall>k d. map_of l k = Some d \<longrightarrow> Filesystem.Name d = k"
    using scanFilesystems_keys [of "[]" lines] r [symmetric] by simp_all
  then have nm: "\<forall>(k, d) \<in> set l. Filesystem.Name d = k" by auto
  then have "map Filesystem.Name (map snd l) = map fst l" by (auto simp: map_idI)
  with inv(1) have "distinct (map snd l)" by (metis distinct_map)
  with inv(1) nm show ?thesis by simp
qed

lemma scanSnapshots_Cons:
  assumes "Sscanf3 line = (name, property, val)"
  shows "scanSnapshots l (line # rest) =
     (let l1 = (case map_of l name of None \<Rightarrow> AList.update name (newSnapshot name) l | Some d \<Rightarrow> l);
          ds = (case map_of l name of None \<Rightarrow> newSnapshot name | Some d \<Rightarrow> d)
      in if property = ''guid'' then
           scanSnapshots (AList.update name (ds\<lparr>Snapshot.GUID := val\<rparr>) l1) rest
         else if property = ''createtxg'' then
           (case ParseInt val of
              Inl err \<Rightarrow>
                (l1, Some (Wrapf err ''unable to convert createtxg value %q to int64'' [val]))
            | Inr p \<Rightarrow> scanSnapshots (AList.update name (ds\<lparr>Snapshot.CreateTxg := p\<rparr>) l1) rest)
         else scanSnapshots l1 rest)"
  using assms by simp

lemma scanSnapshots_malformed:
  "\<exists>line \<in> set lines. malformed3 line \<Longrightarrow>
   \<exists>v k. snd (scanSnapshots l lines) =
      Some (Wrapf (NumError ''ParseInt'' v k) ''unable to convert createtxg value %q to int64'' [v])
      \<and> ParseInt v = Inl (NumError ''ParseInt'' v k)"
proof (induction lines arbitrary: l)
  case Nil
  then show ?case by simp
next
  case (Cons line rest)
  obtain name property val where sc: "Sscanf3 line = (name, property, val)"
    by (cases "Sscanf3 line") auto
  note step = scanSnapshots_Cons [OF sc, of l rest]
  show ?case
  proof (cases "malformed3 line")
    case True
    with sc obtain err where p: "property = ''createtxg''" "ParseInt val = Inl err"
      by (cases "ParseInt val") (auto simp: malformed3_def)
    then obtain k where "err = NumError ''ParseInt'' val k"
      using ParseInt_error by blast
    with p step show ?thesis by (simp add: Let_def)
  next
    case False
    with Cons.prems have r: "\<exists>line \<in> set rest. malformed3 line" by auto
    from False sc have ok: "property = ''createtxg'' \<Longrightarrow> \<exists>p. ParseInt val = Inr p"
      by (cases "ParseInt val") (auto simp: malformed3_def)
    show ?thesis
    proof (cases "property = ''createtxg''")
      case True
      with ok obtain p where "ParseInt val = Inr p" by blast
      with True step Cons.IH [OF r] show ?thesis by (simp add: Let_def)
    next
      case False
      with step Cons.IH [OF r] show ?thesis by (simp add: Let_def)
    qed
  qed
qed

lemma scanSnapshots_keys:
  "distinct (map fst l) \<Longrightarrow> (\<forall>k d. map_of l k = Some d \<longrightarrow> Snapshot.Name d = k) \<Longrightarrow>
   distinct (map fst (fst (scanSnapshots l lines)))
   \<and> (\<forall>k d. map_of (fst (scanSnapshots l lines)) k = Some d \<longrightarrow> Snapshot.Name d = k)"
proof (induction lines arbitrary: l)
  case Nil
  then show ?case by simp
next
  case (Cons line rest)
  obtain name property val where sc: "Sscanf3 line = (name, property, val)"
    by (cases "Sscanf3 line") auto
  define l1 where "l1 = (case map_of l name of
      None \<Rightarrow> AList.update name (newSnapshot name) l | Some d \<Rightarrow> l)"
  define ds where "ds = (case map_of l name of None \<Rightarrow> newSnapshot name | Some d \<Rightarrow> d)"
  have ds: "Snapshot.Name ds = name"
    using Cons.prems(2)
    by (auto simp: ds_def newSnapshot_def simp del: map_of_eq_Some_iff split: option.splits)
  have l1: "distinct (map fst l1)" "\<forall>k d. map_of l1 k = Some d \<longrightarrow> Snapshot.Name d = k"
    using Cons.prems
    by (auto simp: l1_def newSnapshot_def distinct_update update_conv' simp del: map_of_eq_Some_iff
          split: option.splits if_splits)
  have upd: "distinct (map fst (AList.update name d l1))
      \<and> (\<forall>k d'. map_of (AList.update name d l1) k = Some d' \<longrightarrow> Snapshot.Name d' = k)"
    if "Snapshot.Name d = name" for d
    using l1 that
    by (auto simp: distinct_update update_conv' simp del: map_of_eq_Some_iff split: if_splits)
  have upd': "distinct (map fst (fst (scanSnapshots (AList.update name d l1) rest)))
      \<and> (\<forall>k d'. map_of (fst (scanSnapshots (AList.update name d l1) rest)) k = Some d'
            \<longrightarrow> Snapshot.Name d' = k)"
    if "Snapshot.Name d = name" for d
    using upd [OF that] Cons.IH [of "AList.update name d l1"] by blast
  have keep: "distinct (map fst (fst (scanSnapshots l1 rest)))
      \<and> (\<forall>k d'. map_of (fst (scanSnapshots l1 rest)) k = Some d' \<longrightarrow> Snapshot.Name d' = k)"
    using l1 Cons.IH [of l1] by blast
  note step = scanSnapshots_Cons [OF sc, of l rest, folded l1_def ds_def, unfolded Let_def]
  show ?case
  proof (cases "property = ''guid''")
    case True
    with step upd' [of "ds\<lparr>Snapshot.GUID := val\<rparr>"] ds show ?thesis by simp
  next
    case ng: False
    show ?thesis
    proof (cases "property = ''createtxg''")
      case True
      show ?thesis
      proof (cases "ParseInt val")
        case (Inl err)
        with True ng step l1 show ?thesis by simp
      next
        case (Inr p)
        with True ng step upd' [of "ds\<lparr>Snapshot.CreateTxg := p\<rparr>"] ds show ?thesis by simp
      qed
    next
      case False
      with ng step keep show ?thesis by simp
    qed
  qed
qed

lemma scanSnapshots_keyed:
  "(l, e) = scanSnapshots [] lines \<Longrightarrow>
   distinct (map fst l) \<and> (\<forall>(k, d) \<in> set l. Snapshot.Name d = k) \<and> distinct (map snd l)"
proof -
  assume r: "(l, e) = scanSnapshots [] lines"
  have inv: "distinct (map fst l)" "\<forall>k d. map_of l k = Some d \<longrightarrow> Snapshot.Name d = k"
    using scanSnapshots_keys [of "[]" lines] r [symmetric] by simp_all
  then have nm: "\<forall>(k, d) \<in> set l. Snapshot.Name d = k" by auto
  then have "map Snapshot.Name (map snd l) = map fst l" by (auto simp: map_idI)
  with inv(1) have "distinct (map snd l)" by (metis distinct_map)
  with inv(1) nm show ?thesis by simp
qed

lemma scanFilesystems_names:
  "snd (scanFilesystems l lines) = None \<Longrightarrow>
   fst ` set (fst (scanFilesystems l lines)) = fst ` set l \<union> (\<lambda>line. fst (Sscanf3 line)) ` set lines"
proof (induction lines arbitrary: l)
  case Nil
  then show ?case by simp
next
  case (Cons line rest)
  obtain name property val where sc: "Sscanf3 line = (name, property, val)"
    by (cases "Sscanf3 line") auto
  define l1 where "l1 = (case map_of l name of
      None \<Rightarrow> AList.update name (newFilesystem name) l | Some d \<Rightarrow> l)"
  define ds where "ds = (case map_of l name of None \<Rightarrow> newFilesystem name | Some d \<Rightarrow> d)"
  have k1: "fst ` set l1 = insert name (fst ` set l)"
  proof (cases "map_of l name")
    case None
    then show ?thesis by (simp add: l1_def dom_update)
  next
    case (Some d)
    then have "name \<in> fst ` set l" by (metis map_of_eq_None_iff option.distinct(1))
    with Some show ?thesis by (auto simp: l1_def)
  qed
  have ku: "fst ` set (AList.update name d l1) = insert name (fst ` set l)" for d
    using k1 by (simp add: dom_update)
  note step = scanFilesystems_Cons [OF sc, of l rest, folded l1_def ds_def, unfolded Let_def]
  have "\<exists>l2. scanFilesystems l (line # rest) = scanFilesystems l2 rest
      \<and> fst ` set l2 = insert name (fst ` set l)"
  proof (cases "property = ''createtxg''")
    case True
    show ?thesis
    proof (cases "ParseInt val")
      case (Inl err)
      with Cons.prems [unfolded step] True show ?thesis by simp
    next
      case (Inr p)
      have "scanFilesystems l (line # rest) =
          scanFilesystems (AList.update name (ds\<lparr>Filesystem.CreateTxg := p\<rparr>) l1) rest"
        unfolding step using True Inr by simp
      with ku show ?thesis by blast
    qed
  next
    case False
    have "scanFilesystems l (line # rest) =
        scanFilesystems (if property = ''origin'' then AList.update name (ds\<lparr>Filesystem.Origin := val\<rparr>) l1
                   else if property = ''guid'' then AList.update name (ds\<lparr>Filesystem.GUID := val\<rparr>) l1
                   else l1) rest"
      unfolding step using False by simp
    moreover have "fst ` set (if property = ''origin'' then AList.update name (ds\<lparr>Filesystem.Origin := val\<rparr>) l1
                   else if property = ''guid'' then AList.update name (ds\<lparr>Filesystem.GUID := val\<rparr>) l1
                   else l1) = insert name (fst ` set l)"
      using ku k1 by simp
    ultimately show ?thesis by blast
  qed
  then obtain l2 where l2: "scanFilesystems l (line # rest) = scanFilesystems l2 rest"
    "fst ` set l2 = insert name (fst ` set l)" by blast
  with Cons.prems have "snd (scanFilesystems l2 rest) = None" by simp
  from Cons.IH [OF this] l2 sc show ?case by auto
qed

lemma scanSnapshots_names:
  "snd (scanSnapshots l lines) = None \<Longrightarrow>
   fst ` set (fst (scanSnapshots l lines)) = fst ` set l \<union> (\<lambda>line. fst (Sscanf3 line)) ` set lines"
proof (induction lines arbitrary: l)
  case Nil
  then show ?case by simp
next
  case (Cons line rest)
  obtain name property val where sc: "Sscanf3 line = (name, property, val)"
    by (cases "Sscanf3 line") auto
  define l1 where "l1 = (case map_of l name of
      None \<Rightarrow> AList.update name (newSnapshot name) l | Some d \<Rightarrow> l)"
  define ds where "ds = (case map_of l name of None \<Rightarrow> newSnapshot name | Some d \<Rightarrow> d)"
  have k1: "fst ` set l1 = insert name (fst ` set l)"
  proof (cases "map_of l name")
    case None
    then show ?thesis by (simp add: l1_def dom_update)
  next
    case (Some d)
    then have "name \<in> fst ` set l" by (metis map_of_eq_None_iff option.distinct(1))
    with Some show ?thesis by (auto simp: l1_def)
  qed
  have ku: "fst ` set (AList.update name d l1) = insert name (fst ` set l)" for d
    using k1 by (simp add: dom_update)
  note step = scanSnapshots_Cons [OF sc, of l rest, folded l1_def ds_def, unfolded Let_def]
  have "\<exists>l2. scanSnapshots l (line # rest) = scanSnapshots l2 rest
      \<and> fst ` set l2 = insert name (fst ` set l)"
  proof (cases "property = ''createtxg''")
    case True
    show ?thesis
    proof (cases "ParseInt val")
      case (Inl err)
      with Cons.prems [unfolded step] True show ?thesis by simp
    next
      case (Inr p)
      have "scanSnapshots l (line # rest) =
          scanSnapshots (AList.update name (ds\<lparr>Snapshot.CreateTxg := p\<rparr>) l1) rest"
        unfolding step using True Inr by simp
      with ku show ?thesis by blast
    qed
  next
    case False
    have "scanSnapshots l (line # rest) =
        scanSnapshots (if property = ''guid'' then AList.update name (ds\<lparr>Snapshot.GUID := val\<rparr>) l1
                   else l1) rest"
      unfolding step using False by simp
    moreover have "fst ` set (if property = ''guid'' then AList.update name (ds\<lparr>Snapshot.GUID := val\<rparr>) l1
                   else l1) = insert name (fst ` set l)"
      using ku k1 by simp
    ultimately show ?thesis by blast
  qed
  then obtain l2 where l2: "scanSnapshots l (line # rest) = scanSnapshots l2 rest"
    "fst ` set l2 = insert name (fst ` set l)" by blast
  with Cons.prems have "snd (scanSnapshots l2 rest) = None" by simp
  from Cons.IH [OF this] l2 sc show ?case by auto
qed

lemma scanFilesystem_malformed:
  "\<exists>line \<in> set lines. malformed2 line \<Longrightarrow>
   \<exists>v k. snd (scanFilesystem ds lines) =
      Some (Wrapf (NumError ''ParseInt'' v k) ''unable to parse createtxg value %q to int64'' [v])
      \<and> ParseInt v = Inl (NumError ''ParseInt'' v k)"
proof (induction lines arbitrary: ds)
  case Nil
  then show ?case by simp
next
  case (Cons line rest)
  obtain property val where sc: "Sscanf2 line = (property, val)"
    by (cases "Sscanf2 line") auto
  show ?case
  proof (cases "malformed2 line")
    case True
    with sc obtain err where p: "property = ''createtxg''" "ParseInt val = Inl err"
      by (cases "ParseInt val") (auto simp: malformed2_def)
    then obtain k where "err = NumError ''ParseInt'' val k"
      using ParseInt_error by blast
    with p sc show ?thesis by simp
  next
    case False
    with Cons.prems have r: "\<exists>line \<in> set rest. malformed2 line" by auto
    from False sc have ok: "property = ''createtxg'' \<Longrightarrow> \<exists>p. ParseInt val = Inr p"
      by (cases "ParseInt val") (auto simp: malformed2_def)
    show ?thesis
    proof (cases "property = ''createtxg''")
      case True
      with ok obtain p where "ParseInt val = Inr p" by blast
      with True sc Cons.IH [OF r] show ?thesis by simp
    next
      case False
      with sc Cons.IH [OF r] show ?thesis by simp
    qed
  qed
qed

lemma scanSnapshot_malformed:
  "\<exists>line \<in> set lines. malformed2 line \<Longrightarrow>
   \<exists>v k. snd (scanSnapshot ds lines) =
      Some (Wrapf (NumError ''ParseInt'' v k) ''unable to parse createtxg value %q to int64'' [v])
      \<and> ParseInt v = Inl (NumError ''ParseInt'' v k)"
proof (induction lines arbitrary: ds)
  case Nil
  then show ?case by simp
next
  case (Cons line rest)
  obtain property val where sc: "Sscanf2 line = (property, val)"
    by (cases "Sscanf2 line") auto
  show ?case
  proof (cases "malformed2 line")
    case True
    with sc obtain err where p: "property = ''createtxg''" "ParseInt val = Inl err"
      by (cases "ParseInt val") (auto simp: malformed2_def)
    then obtain k where "err = NumError ''ParseInt'' val k"
      using ParseInt_error by blast
    with p sc show ?thesis by simp
  next
    case False
    with Cons.prems have r: "\<exists>line \<in> set rest. malformed2 line" by auto
    from False sc have ok: "property = ''createtxg'' \<Longrightarrow> \<exists>p. ParseInt val = Inr p"
      by (cases "ParseInt val") (auto simp: malformed2_def)
    show ?thesis
    proof (cases "property = ''createtxg''")
      case True
      with ok obtain p where "ParseInt val = Inr p" by blast
      with True sc Cons.IH [OF r] show ?thesis by simp
    next
      case False
      with sc Cons.IH [OF r] show ?thesis by simp
    qed
  qed
qed

subsection \<open>Maps as lists of entries\<close>


lemma SplitAt0_shape:
  "SplitAt0 s = s \<or> (\<exists>suffix. s = SplitAt0 s @ CHR ''@'' # suffix)"
proof (cases "CHR ''@'' \<in> set s")
  case True
  then have "dropWhile (\<lambda>c. c \<noteq> CHR ''@'') s \<noteq> []" by simp
  then obtain c suffix where d: "dropWhile (\<lambda>c. c \<noteq> CHR ''@'') s = c # suffix"
    by (cases "dropWhile (\<lambda>c. c \<noteq> CHR ''@'') s") auto
  then have "c = CHR ''@''" using hd_dropWhile [of "\<lambda>c. c \<noteq> CHR ''@''" s] by auto
  with d have "s = SplitAt0 s @ CHR ''@'' # suffix"
    using takeWhile_dropWhile_id [of "\<lambda>c. c \<noteq> CHR ''@''" s] by (simp add: SplitAt0_def)
  then show ?thesis by blast
next
  case False
  then have "takeWhile (\<lambda>c. c \<noteq> CHR ''@'') s = s" by (auto simp: takeWhile_eq_all_conv)
  then show ?thesis by (simp add: SplitAt0_def)
qed

subsection \<open>A line with a name the map holds, and with a name it does not hold\<close>





subsection \<open>A line the scanner does not deliver\<close>

lemma ScanFrom_long:
  "CHR 0x0A \<notin> set xs \<Longrightarrow> MaxScanTokenSize \<le> length cur + length xs \<Longrightarrow>
   ScanFrom cur (xs @ CHR 0x0A # rest) = []"
  by (induction xs arbitrary: cur) auto

subsection \<open>Evaluation on concrete inputs\<close>

lemmas line_simps = ScanLines_def MaxScanTokenSize_def dropCR_def row2_def row3_def line2_def line3_def

lemmas scan_simps = Sscanf3_def Sscanf2_def verb_s_def isSpace_def RuneError_def cont_def

lemmas int_simps = ParseInt_def ParseUint_def isDigit_def

lemma GetFilesystem_fsReply:
  "GetFilesystem (answering fsReply) tank ''tank/a'' calls =
     ((\<lparr>Filesystem.Name = ''tank/a'', GUID = ''G7'', Origin = ''-'', CreateTxg = 9\<rparr>, None),
      calls @ [getFilesystemCmd ''tank/a''])"
proof -
  have "ScanLines fsReply =
      [line2 ''name'' ''tank/a'', line2 ''guid'' ''G7'',
       line2 ''createtxg'' ''9'', line2 ''origin'' ''-'']"
    by (simp add: fsReply_def line_simps)
  moreover have "Sscanf2 (line2 ''name'' ''tank/a'') = (''name'', ''tank/a'')"
    "Sscanf2 (line2 ''guid'' ''G7'') = (''guid'', ''G7'')"
    "Sscanf2 (line2 ''createtxg'' ''9'') = (''createtxg'', ''9'')"
    "Sscanf2 (line2 ''origin'' ''-'') = (''origin'', ''-'')"
    by (simp_all add: line2_def scan_simps)
  moreover have "ParseInt ''9'' = Inr 9"
    by (simp add: int_simps)
  moreover have "prefix (Zpool.Name tank) ''tank/a''"
    by (simp add: tank_def)
  ultimately show ?thesis
    by (simp add: GetFilesystem_ok answering_def zeroFilesystem_def del: append.simps)
qed

lemma GetSnapshot_snapReply:
  "GetSnapshot (answering snapReply) tank ''tank/a@s'' calls =
     ((\<lparr>Snapshot.Name = ''tank/a@s'', GUID = ''G8'', CreateTxg = 11\<rparr>, None),
      calls @ [getSnapshotCmd ''tank/a@s''])"
proof -
  have "ScanLines snapReply =
      [line2 ''name'' ''tank/a@s'', line2 ''guid'' ''G8'',
       line2 ''createtxg'' ''11'']"
    by (simp add: snapReply_def line_simps)
  moreover have "Sscanf2 (line2 ''name'' ''tank/a@s'') = (''name'', ''tank/a@s'')"
    "Sscanf2 (line2 ''guid'' ''G8'') = (''guid'', ''G8'')"
    "Sscanf2 (line2 ''createtxg'' ''11'') = (''createtxg'', ''11'')"
    by (simp_all add: line2_def scan_simps)
  moreover have "ParseInt ''11'' = Inr 11"
    by (simp add: int_simps)
  moreover have "prefix (Zpool.Name tank) ''tank/a@s''"
    by (simp add: tank_def)
  ultimately show ?thesis
    by (simp add: GetSnapshot_ok answering_def zeroSnapshot_def del: append.simps)
qed

lemma GetFilesystem_failingGet:
  "GetFilesystem failingGet tank ''tank/a'' calls =
     ((zeroFilesystem,
       Some (Wrapf (ExitError ''exit status 1'') ''filesystem %q not found'' [''tank/a''])),
      calls @ [getFilesystemCmd ''tank/a''])"
  by (simp add: GetFilesystem_def HasPrefix_def Output_def Let_def failingGet_def tank_def
      getFilesystemCmd_def Command_def zfsPath_def)

lemma GetSnapshot_failingGet:
  "GetSnapshot failingGet tank ''tank/a@s'' calls =
     ((zeroSnapshot, Some (Errorf ''snapshot %q not found'' [''tank/a@s''])),
      calls @ [getSnapshotCmd ''tank/a@s''])"
  by (simp add: GetSnapshot_def HasPrefix_def Output_def Let_def failingGet_def tank_def
      getSnapshotCmd_def Command_def zfsPath_def)

lemma ScanLines_stream3:
  "ScanLines stream3 =
      [line3 ''ds1'' ''guid'' ''G1'',
       line3 ''ds1'' ''createtxg'' ''42'',
       line3 ''ds2'' ''guid'' ''G2'']"
  by (simp add: stream3_def line_simps)

lemma Sscanf3_stream3:
  shows "Sscanf3 (line3 ''ds1'' ''guid'' ''G1'') = (''ds1'', ''guid'', ''G1'')"
    and "Sscanf3 (line3 ''ds1'' ''createtxg'' ''42'') = (''ds1'', ''createtxg'', ''42'')"
    and "Sscanf3 (line3 ''ds2'' ''guid'' ''G2'') = (''ds2'', ''guid'', ''G2'')"
  by (simp_all add: line3_def scan_simps)

lemma ParseInt_stream3:
  shows "ParseInt ''42'' = Inr 42"
  by (simp_all add: int_simps)

lemma scanFilesystems_stream3:
  "scanFilesystems [] (ScanLines stream3) =
     ([(''ds1'', \<lparr>Filesystem.Name = ''ds1'', GUID = ''G1'', Origin = [], CreateTxg = 42\<rparr>),
      (''ds2'', \<lparr>Filesystem.Name = ''ds2'', GUID = ''G2'', Origin = [], CreateTxg = 0\<rparr>)], None)"
  unfolding ScanLines_stream3
  by (simp add: Sscanf3_stream3 ParseInt_stream3 newFilesystem_def del: append.simps)

lemma ListFilesystems_stream3:
  "ListFilesystems (answering stream3) z calls =
     (([(''ds1'', \<lparr>Filesystem.Name = ''ds1'', GUID = ''G1'', Origin = [], CreateTxg = 42\<rparr>),
      (''ds2'', \<lparr>Filesystem.Name = ''ds2'', GUID = ''G2'', Origin = [], CreateTxg = 0\<rparr>)], None), calls @ [listFilesystemsCmd z])"
  by (simp add: ListFilesystems_ok [of _ _ _ stream3] scanFilesystems_stream3 answering_def)

lemma scanSnapshots_stream3:
  "scanSnapshots [] (ScanLines stream3) =
     ([(''ds1'', \<lparr>Snapshot.Name = ''ds1'', GUID = ''G1'', CreateTxg = 42\<rparr>),
      (''ds2'', \<lparr>Snapshot.Name = ''ds2'', GUID = ''G2'', CreateTxg = 0\<rparr>)], None)"
  unfolding ScanLines_stream3
  by (simp add: Sscanf3_stream3 ParseInt_stream3 newSnapshot_def del: append.simps)

lemma ListSnapshots_stream3:
  "ListSnapshots (answering stream3) z calls =
     (([(''ds1'', \<lparr>Snapshot.Name = ''ds1'', GUID = ''G1'', CreateTxg = 42\<rparr>),
      (''ds2'', \<lparr>Snapshot.Name = ''ds2'', GUID = ''G2'', CreateTxg = 0\<rparr>)], None), calls @ [listSnapshotsCmd z])"
  by (simp add: ListSnapshots_ok [of _ _ _ stream3] scanSnapshots_stream3 answering_def)

lemma ScanLines_snapStream:
  "ScanLines snapStream =
      [line3 ''pool/f@a'' ''guid'' ''1'',
       line3 ''pool/f2@b'' ''guid'' ''2'',
       line3 ''pool/f@c'' ''guid'' ''3'']"
  by (simp add: snapStream_def line_simps)

lemma Sscanf3_snapStream:
  shows "Sscanf3 (line3 ''pool/f@a'' ''guid'' ''1'') = (''pool/f@a'', ''guid'', ''1'')"
    and "Sscanf3 (line3 ''pool/f2@b'' ''guid'' ''2'') = (''pool/f2@b'', ''guid'', ''2'')"
    and "Sscanf3 (line3 ''pool/f@c'' ''guid'' ''3'') = (''pool/f@c'', ''guid'', ''3'')"
  by (simp_all add: line3_def scan_simps)

lemma scanSnapshots_snapStream:
  "scanSnapshots [] (ScanLines snapStream) =
     ([(''pool/f@a'', \<lparr>Snapshot.Name = ''pool/f@a'', GUID = ''1'', CreateTxg = 0\<rparr>),
      (''pool/f2@b'', \<lparr>Snapshot.Name = ''pool/f2@b'', GUID = ''2'', CreateTxg = 0\<rparr>),
      (''pool/f@c'', \<lparr>Snapshot.Name = ''pool/f@c'', GUID = ''3'', CreateTxg = 0\<rparr>)], None)"
  unfolding ScanLines_snapStream
  by (simp add: Sscanf3_snapStream newSnapshot_def del: append.simps)

lemma ListSnapshots_snapStream:
  "ListSnapshots (answering snapStream) z calls =
     (([(''pool/f@a'', \<lparr>Snapshot.Name = ''pool/f@a'', GUID = ''1'', CreateTxg = 0\<rparr>),
      (''pool/f2@b'', \<lparr>Snapshot.Name = ''pool/f2@b'', GUID = ''2'', CreateTxg = 0\<rparr>),
      (''pool/f@c'', \<lparr>Snapshot.Name = ''pool/f@c'', GUID = ''3'', CreateTxg = 0\<rparr>)], None), calls @ [listSnapshotsCmd z])"
  by (simp add: ListSnapshots_ok [of _ _ _ snapStream] scanSnapshots_snapStream answering_def)

lemma ScanLines_cloneStream:
  "ScanLines cloneStream =
      [line3 ''tank/c1'' ''origin'' ''tank/a@s'',
       line3 ''tank/a'' ''origin'' ''-'',
       line3 ''tank/c2'' ''origin'' ''tank/a@s'',
       line3 ''tank/c2'' ''guid'' ''G2'']"
  by (simp add: cloneStream_def line_simps)

lemma Sscanf3_cloneStream:
  shows "Sscanf3 (line3 ''tank/c1'' ''origin'' ''tank/a@s'') = (''tank/c1'', ''origin'', ''tank/a@s'')"
    and "Sscanf3 (line3 ''tank/a'' ''origin'' ''-'') = (''tank/a'', ''origin'', ''-'')"
    and "Sscanf3 (line3 ''tank/c2'' ''origin'' ''tank/a@s'') = (''tank/c2'', ''origin'', ''tank/a@s'')"
    and "Sscanf3 (line3 ''tank/c2'' ''guid'' ''G2'') = (''tank/c2'', ''guid'', ''G2'')"
  by (simp_all add: line3_def scan_simps)

lemma scanFilesystems_cloneStream:
  "scanFilesystems [] (ScanLines cloneStream) =
     ([(''tank/c1'', \<lparr>Filesystem.Name = ''tank/c1'', GUID = [], Origin = ''tank/a@s'', CreateTxg = 0\<rparr>),
      (''tank/a'', \<lparr>Filesystem.Name = ''tank/a'', GUID = [], Origin = ''-'', CreateTxg = 0\<rparr>),
      (''tank/c2'', \<lparr>Filesystem.Name = ''tank/c2'', GUID = ''G2'', Origin = ''tank/a@s'', CreateTxg = 0\<rparr>)], None)"
  unfolding ScanLines_cloneStream
  by (simp add: Sscanf3_cloneStream newFilesystem_def del: append.simps)

lemma ListFilesystems_cloneStream:
  "ListFilesystems (answering cloneStream) z calls =
     (([(''tank/c1'', \<lparr>Filesystem.Name = ''tank/c1'', GUID = [], Origin = ''tank/a@s'', CreateTxg = 0\<rparr>),
      (''tank/a'', \<lparr>Filesystem.Name = ''tank/a'', GUID = [], Origin = ''-'', CreateTxg = 0\<rparr>),
      (''tank/c2'', \<lparr>Filesystem.Name = ''tank/c2'', GUID = ''G2'', Origin = ''tank/a@s'', CreateTxg = 0\<rparr>)], None), calls @ [listFilesystemsCmd z])"
  by (simp add: ListFilesystems_ok [of _ _ _ cloneStream] scanFilesystems_cloneStream answering_def)

section \<open>The property-stream parser\<close>



subsection \<open>Malformed \<open>createtxg\<close> values\<close>

text \<open>
  What the four parsing operations do once a line has been scanned. Let the query
  succeed with the output \<open>out\<close> (and, for \<open>GetFilesystem\<close> and \<open>GetSnapshot\<close>, the name
  begin with the pool's name). If for some line the scanner delivers the scan assigns
  the property \<open>createtxg\<close> and a value that \<open>ParseInt\<close> refuses, the operation returns
  the \<open>NumError\<close> of \<open>ParseInt\<close> for such a value \<open>v\<close>, wrapped with the operation's
  message and \<open>v\<close>: the branch of the \<open>switch\<close> that converts the value never drops the
  error.
\<close>

lemma createtxg_error_as_scanned:
  "(t calls (listFilesystemsCmd z) = Inr out \<and> (\<exists>line \<in> set (ScanLines out). malformed3 line)
      \<longrightarrow> (\<exists>v k. snd (fst (ListFilesystems t z calls)) =
                  Some (Wrapf (NumError ''ParseInt'' v k)
                          ''unable to convert createtxg value %q to int64'' [v])
                \<and> ParseInt v = Inl (NumError ''ParseInt'' v k)))
   \<and> (t calls (listSnapshotsCmd z) = Inr out \<and> (\<exists>line \<in> set (ScanLines out). malformed3 line)
      \<longrightarrow> (\<exists>v k. snd (fst (ListSnapshots t z calls)) =
                  Some (Wrapf (NumError ''ParseInt'' v k)
                          ''unable to convert createtxg value %q to int64'' [v])
                \<and> ParseInt v = Inl (NumError ''ParseInt'' v k)))
   \<and> (prefix (Zpool.Name z) name \<and> t calls (getFilesystemCmd name) = Inr out
        \<and> (\<exists>line \<in> set (ScanLines out). malformed2 line)
      \<longrightarrow> (\<exists>v k. snd (fst (GetFilesystem t z name calls)) =
                  Some (Wrapf (NumError ''ParseInt'' v k)
                          ''unable to parse createtxg value %q to int64'' [v])
                \<and> ParseInt v = Inl (NumError ''ParseInt'' v k)))
   \<and> (prefix (Zpool.Name z) name \<and> t calls (getSnapshotCmd name) = Inr out
        \<and> (\<exists>line \<in> set (ScanLines out). malformed2 line)
      \<longrightarrow> (\<exists>v k. snd (fst (GetSnapshot t z name calls)) =
                  Some (Wrapf (NumError ''ParseInt'' v k)
                          ''unable to parse createtxg value %q to int64'' [v])
                \<and> ParseInt v = Inl (NumError ''ParseInt'' v k)))"
  using scanFilesystems_malformed [of "ScanLines out" "[]"]
    scanSnapshots_malformed [of "ScanLines out" "[]"]
    scanFilesystem_malformed [of "ScanLines out" zeroFilesystem]
    scanSnapshot_malformed [of "ScanLines out" zeroSnapshot]
  by (simp add: ListFilesystems_ok ListSnapshots_ok GetFilesystem_ok GetSnapshot_ok)

text \<open>
  Instances: a list stream whose second line is \<open>ds1 createtxg 4x\<close> and a get stream
  whose second line is \<open>createtxg 4x\<close>. Each of the four operations returns the syntax
  error of \<open>ParseInt\<close> for \<open>4x\<close>, wrapped.
\<close>

lemma createtxg_error_as_scanned_instances:
  "ScanLines badList = [line3 ''ds1'' ''guid'' ''G1'', line3 ''ds1'' ''createtxg'' ''4x'']
   \<and> malformed3 (line3 ''ds1'' ''createtxg'' ''4x'')
   \<and> snd (fst (ListFilesystems (answering badList) tank [])) =
       Some (Wrapf (NumError ''ParseInt'' ''4x'' ErrSyntax)
               ''unable to convert createtxg value %q to int64'' [''4x''])
   \<and> snd (fst (ListSnapshots (answering badList) tank [])) =
       Some (Wrapf (NumError ''ParseInt'' ''4x'' ErrSyntax)
               ''unable to convert createtxg value %q to int64'' [''4x''])
   \<and> ScanLines badGet = [line2 ''name'' ''tank/a'', line2 ''createtxg'' ''4x'']
   \<and> malformed2 (line2 ''createtxg'' ''4x'')
   \<and> snd (fst (GetFilesystem (answering badGet) tank ''tank/a'' [])) =
       Some (Wrapf (NumError ''ParseInt'' ''4x'' ErrSyntax)
               ''unable to parse createtxg value %q to int64'' [''4x''])
   \<and> snd (fst (GetSnapshot (answering badGet) tank ''tank/a'' [])) =
       Some (Wrapf (NumError ''ParseInt'' ''4x'' ErrSyntax)
               ''unable to parse createtxg value %q to int64'' [''4x''])"
proof -
  have l: "ScanLines badList = [line3 ''ds1'' ''guid'' ''G1'', line3 ''ds1'' ''createtxg'' ''4x'']"
    "ScanLines badGet = [line2 ''name'' ''tank/a'', line2 ''createtxg'' ''4x'']"
    by (simp_all add: badList_def badGet_def line_simps)
  have s: "Sscanf3 (line3 ''ds1'' ''guid'' ''G1'') = (''ds1'', ''guid'', ''G1'')"
    "Sscanf3 (line3 ''ds1'' ''createtxg'' ''4x'') = (''ds1'', ''createtxg'', ''4x'')"
    "Sscanf2 (line2 ''name'' ''tank/a'') = (''name'', ''tank/a'')"
    "Sscanf2 (line2 ''createtxg'' ''4x'') = (''createtxg'', ''4x'')"
    by (simp_all add: line3_def line2_def scan_simps)
  have p: "ParseInt ''4x'' = Inl (NumError ''ParseInt'' ''4x'' ErrSyntax)"
    by (simp add: int_simps)
  have m: "malformed3 (line3 ''ds1'' ''createtxg'' ''4x'')" "malformed2 (line2 ''createtxg'' ''4x'')"
    by (simp_all add: malformed3_def malformed2_def s p)
  have z: "prefix (Zpool.Name tank) ''tank/a''"
    by (simp add: tank_def)
  have e: "snd (scanFilesystems [] (ScanLines badList)) =
       Some (Wrapf (NumError ''ParseInt'' ''4x'' ErrSyntax)
               ''unable to convert createtxg value %q to int64'' [''4x''])"
    "snd (scanSnapshots [] (ScanLines badList)) =
       Some (Wrapf (NumError ''ParseInt'' ''4x'' ErrSyntax)
               ''unable to convert createtxg value %q to int64'' [''4x''])"
    "snd (scanFilesystem zeroFilesystem (ScanLines badGet)) =
       Some (Wrapf (NumError ''ParseInt'' ''4x'' ErrSyntax)
               ''unable to parse createtxg value %q to int64'' [''4x''])"
    "snd (scanSnapshot zeroSnapshot (ScanLines badGet)) =
       Some (Wrapf (NumError ''ParseInt'' ''4x'' ErrSyntax)
               ''unable to parse createtxg value %q to int64'' [''4x''])"
    unfolding l by (simp_all add: s p)
  from createtxg_error_as_scanned [of "answering badList" "[]" tank badList]
    createtxg_error_as_scanned [of "answering badGet" "[]" tank badGet "''tank/a''"]
    l m z e
  show ?thesis
    by (simp add: ListFilesystems_ok [of _ _ _ badList] ListSnapshots_ok [of _ _ _ badList]
        GetFilesystem_ok [of _ _ _ _ badGet] GetSnapshot_ok [of _ _ _ _ badGet] answering_def)
qed

text \<open>
  Claim C3 is not met by the code. The tool prints tab-separated columns
  (\<open>zfs get -H\<close>) and the formats \<open>"%s\t%s\t%s"\<close> and \<open>"%s\t%s"\<close> name the tab, but the
  verb \<open>%s\<close> ends an operand at a space as well. The columns of the line
  \<open>tank/my data<TAB>createtxg<TAB>abc\<close> are a name, the property \<open>createtxg\<close> and the
  value \<open>abc\<close>, which is no integer; the scan reads the name \<open>tank/my\<close> and the property
  \<open>data\<close>, so both list operations return, without error, a record \<open>tank/my\<close> whose
  \<open>CreateTxg\<close> is the default 0. The columns of \<open>createtxg<TAB>4 2\<close> are the property
  \<open>createtxg\<close> and the value \<open>4 2\<close>, which is no integer; the scan reads the value \<open>4\<close>,
  and both get operations return a record with \<open>CreateTxg\<close> 4 and no error. And the
  loop never reads \<open>in.Err()\<close>: the line \<open>ds1 createtxg abc\<close>, an error when it stands
  alone, is not read when it follows a line of 65536 bytes, and the operation returns
  the empty map without error.
\<close>

theorem C3_malformed_column_not_reported:
  "spec_columns (line3 ''tank/my data'' ''createtxg'' ''abc'') = [''tank/my data'', ''createtxg'', ''abc'']
   \<and> isl (ParseInt ''abc'')
   \<and> fst (ListFilesystems (answering (row3 ''tank/my data'' ''createtxg'' ''abc'')) tank [])
       = ([(''tank/my'', \<lparr>Filesystem.Name = ''tank/my'', GUID = [], Origin = [], CreateTxg = 0\<rparr>)], None)
   \<and> fst (ListSnapshots (answering (row3 ''tank/my data'' ''createtxg'' ''abc'')) tank [])
       = ([(''tank/my'', \<lparr>Snapshot.Name = ''tank/my'', GUID = [], CreateTxg = 0\<rparr>)], None)
   \<and> spec_columns (line2 ''createtxg'' ''4 2'') = [''createtxg'', ''4 2'']
   \<and> isl (ParseInt ''4 2'')
   \<and> fst (GetFilesystem (answering (row2 ''createtxg'' ''4 2'')) tank ''tank/a'' [])
       = (\<lparr>Filesystem.Name = [], GUID = [], Origin = [], CreateTxg = 4\<rparr>, None)
   \<and> fst (GetSnapshot (answering (row2 ''createtxg'' ''4 2'')) tank ''tank/a@s'' [])
       = (\<lparr>Snapshot.Name = [], GUID = [], CreateTxg = 4\<rparr>, None)
   \<and> snd (fst (ListFilesystems (answering (row3 ''ds1'' ''createtxg'' ''abc'')) tank []))
       = Some (Wrapf (NumError ''ParseInt'' ''abc'' ErrSyntax)
                 ''unable to convert createtxg value %q to int64'' [''abc''])
   \<and> fst (ListFilesystems
             (answering (replicate 65536 (CHR ''a'') @ [CHR 0x0A] @ row3 ''ds1'' ''createtxg'' ''abc''))
             tank [])
       = ([], None)"
proof -
  have c: "spec_columns (line3 ''tank/my data'' ''createtxg'' ''abc'') = [''tank/my data'', ''createtxg'', ''abc'']"
    "spec_columns (line2 ''createtxg'' ''4 2'') = [''createtxg'', ''4 2'']"
    by (simp_all add: spec_columns_def line3_def line2_def)
  have p: "ParseInt ''abc'' = Inl (NumError ''ParseInt'' ''abc'' ErrSyntax)"
    "ParseInt ''4 2'' = Inl (NumError ''ParseInt'' ''4 2'' ErrSyntax)"
    "ParseInt ''4'' = Inr 4"
    by (simp_all add: int_simps)
  have l: "ScanLines (row3 ''tank/my data'' ''createtxg'' ''abc'') = [line3 ''tank/my data'' ''createtxg'' ''abc'']"
    "ScanLines (row2 ''createtxg'' ''4 2'') = [line2 ''createtxg'' ''4 2'']"
    "ScanLines (row3 ''ds1'' ''createtxg'' ''abc'') = [line3 ''ds1'' ''createtxg'' ''abc'']"
    by (simp_all add: line_simps)
  have s: "Sscanf3 (line3 ''tank/my data'' ''createtxg'' ''abc'') = (''tank/my'', ''data'', ''createtxg'')"
    "Sscanf2 (line2 ''createtxg'' ''4 2'') = (''createtxg'', ''4'')"
    "Sscanf3 (line3 ''ds1'' ''createtxg'' ''abc'') = (''ds1'', ''createtxg'', ''abc'')"
    by (simp_all add: line3_def line2_def scan_simps)
  have z: "prefix (Zpool.Name tank) ''tank/a''" "prefix (Zpool.Name tank) ''tank/a@s''"
    by (simp_all add: tank_def)
  have long: "ScanLines (replicate 65536 (CHR ''a'') @ CHR 0x0A # row3 ''ds1'' ''createtxg'' ''abc'') = []"
    unfolding ScanLines_def
    using ScanFrom_long [of "replicate 65536 (CHR ''a'')" "[]" "row3 ''ds1'' ''createtxg'' ''abc''"]
    by (simp add: MaxScanTokenSize_def)
  have 1: "fst (ListFilesystems (answering (row3 ''tank/my data'' ''createtxg'' ''abc'')) tank [])
       = ([(''tank/my'', \<lparr>Filesystem.Name = ''tank/my'', GUID = [], Origin = [], CreateTxg = 0\<rparr>)], None)"
    by (simp add: ListFilesystems_ok [of _ _ _ "row3 ''tank/my data'' ''createtxg'' ''abc''"]
        answering_def l s newFilesystem_def)
  have 2: "fst (ListSnapshots (answering (row3 ''tank/my data'' ''createtxg'' ''abc'')) tank [])
       = ([(''tank/my'', \<lparr>Snapshot.Name = ''tank/my'', GUID = [], CreateTxg = 0\<rparr>)], None)"
    by (simp add: ListSnapshots_ok [of _ _ _ "row3 ''tank/my data'' ''createtxg'' ''abc''"]
        answering_def l s newSnapshot_def)
  have 3: "fst (GetFilesystem (answering (row2 ''createtxg'' ''4 2'')) tank ''tank/a'' [])
       = (\<lparr>Filesystem.Name = [], GUID = [], Origin = [], CreateTxg = 4\<rparr>, None)"
    by (simp add: GetFilesystem_ok [of _ _ _ _ "row2 ''createtxg'' ''4 2''"] z
        answering_def l s p zeroFilesystem_def)
  have 4: "fst (GetSnapshot (answering (row2 ''createtxg'' ''4 2'')) tank ''tank/a@s'' [])
       = (\<lparr>Snapshot.Name = [], GUID = [], CreateTxg = 4\<rparr>, None)"
    by (simp add: GetSnapshot_ok [of _ _ _ _ "row2 ''createtxg'' ''4 2''"] z
        answering_def l s p zeroSnapshot_def)
  have 5: "snd (fst (ListFilesystems (answering (row3 ''ds1'' ''createtxg'' ''abc'')) tank []))
       = Some (Wrapf (NumError ''ParseInt'' ''abc'' ErrSyntax)
                 ''unable to convert createtxg value %q to int64'' [''abc''])"
    by (simp add: ListFilesystems_ok [of _ _ _ "row3 ''ds1'' ''createtxg'' ''abc''"]
        answering_def l s p)
  have 6: "fst (ListFilesystems
             (answering (replicate 65536 (CHR ''a'') @ [CHR 0x0A] @ row3 ''ds1'' ''createtxg'' ''abc''))
             tank [])
       = ([], None)"
    by (simp add: ListFilesystems_ok
          [of _ _ _ "replicate 65536 (CHR ''a'') @ [CHR 0x0A] @ row3 ''ds1'' ''createtxg'' ''abc''"]
        answering_def long)
  from c p 1 2 3 4 5 6 show ?thesis by simp
qed

section \<open>The collections and the derived relationships\<close>

text \<open>
  What holds of a map that \<open>ListFilesystems\<close> or \<open>ListSnapshots\<close> returns without error:
  no key has two entries, the record stored under a key has that key as its \<open>Name\<close>,
  and the keys are the names the scan assigned for the lines of the tool's output.
\<close>

lemma listed_keys_as_scanned:
  "(ListFilesystems t z calls = ((fl, None), after)
      \<longrightarrow> distinct (map fst fl) \<and> (\<forall>(k, d) \<in> set fl. Filesystem.Name d = k))
   \<and> (ListSnapshots t z calls = ((sl, None), after')
      \<longrightarrow> distinct (map fst sl) \<and> (\<forall>(k, d) \<in> set sl. Snapshot.Name d = k))
   \<and> (ListFilesystems t z calls = ((fl, None), after) \<and> t calls (listFilesystemsCmd z) = Inr out
      \<longrightarrow> fst ` set fl = (\<lambda>line. fst (Sscanf3 line)) ` set (ScanLines out))
   \<and> (ListSnapshots t z calls = ((sl, None), after') \<and> t calls (listSnapshotsCmd z) = Inr out'
      \<longrightarrow> fst ` set sl = (\<lambda>line. fst (Sscanf3 line)) ` set (ScanLines out'))"
proof (intro conjI impI)
  assume r: "ListFilesystems t z calls = ((fl, None), after)"
  with ListFilesystems_cases [of t calls z] obtain out
    where "(fl, None) = scanFilesystems [] (ScanLines out)" by auto
  from scanFilesystems_keyed [OF this]
  show "distinct (map fst fl)" "\<forall>(k, d) \<in> set fl. Filesystem.Name d = k" by simp_all
next
  assume r: "ListSnapshots t z calls = ((sl, None), after')"
  with ListSnapshots_cases [of t calls z] obtain out
    where "(sl, None) = scanSnapshots [] (ScanLines out)" by auto
  from scanSnapshots_keyed [OF this]
  show "distinct (map fst sl)" "\<forall>(k, d) \<in> set sl. Snapshot.Name d = k" by simp_all
next
  assume a: "ListFilesystems t z calls = ((fl, None), after) \<and> t calls (listFilesystemsCmd z) = Inr out"
  then have "t calls (listFilesystemsCmd z) = Inr out" by simp
  from ListFilesystems_ok [of t calls z out, OF this] a have "scanFilesystems [] (ScanLines out) = (fl, None)"
    by simp
  with scanFilesystems_names [of "[]" "ScanLines out"]
  show "fst ` set fl = (\<lambda>line. fst (Sscanf3 line)) ` set (ScanLines out)" by simp
next
  assume a: "ListSnapshots t z calls = ((sl, None), after') \<and> t calls (listSnapshotsCmd z) = Inr out'"
  then have "t calls (listSnapshotsCmd z) = Inr out'" by simp
  from ListSnapshots_ok [of t calls z "out'", OF this] a have "scanSnapshots [] (ScanLines out') = (sl, None)"
    by simp
  with scanSnapshots_names [of "[]" "ScanLines out'"]
  show "fst ` set sl = (\<lambda>line. fst (Sscanf3 line)) ` set (ScanLines out')" by simp
qed

text \<open>Instance: the two maps parsed from the stream of three lines; the names the
  scan assigns for the three lines are \<open>ds1\<close>, \<open>ds1\<close> and \<open>ds2\<close>.\<close>

lemma listed_keys_as_scanned_instance:
  "ListFilesystems (answering stream3) tank [] =
     (([(''ds1'', \<lparr>Filesystem.Name = ''ds1'', GUID = ''G1'', Origin = [], CreateTxg = 42\<rparr>),
        (''ds2'', \<lparr>Filesystem.Name = ''ds2'', GUID = ''G2'', Origin = [], CreateTxg = 0\<rparr>)], None),
      [listFilesystemsCmd tank])
   \<and> ListSnapshots (answering stream3) tank [] =
     (([(''ds1'', \<lparr>Snapshot.Name = ''ds1'', GUID = ''G1'', CreateTxg = 42\<rparr>),
        (''ds2'', \<lparr>Snapshot.Name = ''ds2'', GUID = ''G2'', CreateTxg = 0\<rparr>)], None),
      [listSnapshotsCmd tank])
   \<and> distinct (map fst (fst (fst (ListFilesystems (answering stream3) tank []))))
   \<and> map (Filesystem.Name \<circ> snd) (fst (fst (ListFilesystems (answering stream3) tank [])))
       = map fst (fst (fst (ListFilesystems (answering stream3) tank [])))
   \<and> distinct (map fst (fst (fst (ListSnapshots (answering stream3) tank []))))
   \<and> map (Snapshot.Name \<circ> snd) (fst (fst (ListSnapshots (answering stream3) tank [])))
       = map fst (fst (fst (ListSnapshots (answering stream3) tank [])))
   \<and> map (\<lambda>line. fst (Sscanf3 line)) (ScanLines stream3) = [''ds1'', ''ds1'', ''ds2'']
   \<and> fst ` set (fst (fst (ListFilesystems (answering stream3) tank []))) = {''ds1'', ''ds2''}
   \<and> fst ` set (fst (fst (ListSnapshots (answering stream3) tank []))) = {''ds1'', ''ds2''}"
  using listed_keys_as_scanned [of "answering stream3" tank "[]"
      "[(''ds1'', \<lparr>Filesystem.Name = ''ds1'', GUID = ''G1'', Origin = [], CreateTxg = 42\<rparr>),
        (''ds2'', \<lparr>Filesystem.Name = ''ds2'', GUID = ''G2'', Origin = [], CreateTxg = 0\<rparr>)]"
      "[listFilesystemsCmd tank]"
      "[(''ds1'', \<lparr>Snapshot.Name = ''ds1'', GUID = ''G1'', CreateTxg = 42\<rparr>),
        (''ds2'', \<lparr>Snapshot.Name = ''ds2'', GUID = ''G2'', CreateTxg = 0\<rparr>)]"
      "[listSnapshotsCmd tank]" stream3 stream3]
  by (simp add: ListFilesystems_stream3 ListSnapshots_stream3 ScanLines_stream3 Sscanf3_stream3)

text \<open>
  Claim C9 is not met by the code. The names of the datasets are the first columns of
  the tool's lines, and a name may hold a space. For the filesystems \<open>tank/my data\<close> and
  \<open>tank/my stuff\<close> the tool prints the lines \<open>tank/my data<TAB>guid<TAB>G1\<close> and
  \<open>tank/my stuff<TAB>guid<TAB>G2\<close>; the scan ends the name at the space, so
  \<open>ListFilesystems\<close> returns, without error, a map with the single key \<open>tank/my\<close>: neither
  dataset name is a key, and the two datasets share one record (whose \<open>GUID\<close> is
  empty, the second operand being \<open>data\<close> or \<open>stuff\<close>). \<open>ListSnapshots\<close> does the same
  for the snapshots \<open>tank/my data@a\<close> and \<open>tank/my stuff@b\<close>.
\<close>

theorem C9_spaced_names_share_a_key:
  "spec_columns (line3 ''tank/my data'' ''guid'' ''G1'') = [''tank/my data'', ''guid'', ''G1'']
   \<and> spec_columns (line3 ''tank/my stuff'' ''guid'' ''G2'') = [''tank/my stuff'', ''guid'', ''G2'']
   \<and> fst (ListFilesystems
             (answering (row3 ''tank/my data'' ''guid'' ''G1'' @ row3 ''tank/my stuff'' ''guid'' ''G2''))
             tank [])
       = ([(''tank/my'', \<lparr>Filesystem.Name = ''tank/my'', GUID = [], Origin = [], CreateTxg = 0\<rparr>)],
          None)
   \<and> ''tank/my data''
       \<notin> fst ` set (fst (fst (ListFilesystems
             (answering (row3 ''tank/my data'' ''guid'' ''G1'' @ row3 ''tank/my stuff'' ''guid'' ''G2''))
             tank [])))
   \<and> ''tank/my stuff''
       \<notin> fst ` set (fst (fst (ListFilesystems
             (answering (row3 ''tank/my data'' ''guid'' ''G1'' @ row3 ''tank/my stuff'' ''guid'' ''G2''))
             tank [])))
   \<and> spec_columns (line3 ''tank/my data@a'' ''guid'' ''G3'') = [''tank/my data@a'', ''guid'', ''G3'']
   \<and> spec_columns (line3 ''tank/my stuff@b'' ''guid'' ''G4'') = [''tank/my stuff@b'', ''guid'', ''G4'']
   \<and> fst (ListSnapshots
             (answering (row3 ''tank/my data@a'' ''guid'' ''G3'' @ row3 ''tank/my stuff@b'' ''guid'' ''G4''))
             tank [])
       = ([(''tank/my'', \<lparr>Snapshot.Name = ''tank/my'', GUID = [], CreateTxg = 0\<rparr>)], None)"
proof -
  have c: "spec_columns (line3 ''tank/my data'' ''guid'' ''G1'') = [''tank/my data'', ''guid'', ''G1'']"
    "spec_columns (line3 ''tank/my stuff'' ''guid'' ''G2'') = [''tank/my stuff'', ''guid'', ''G2'']"
    "spec_columns (line3 ''tank/my data@a'' ''guid'' ''G3'') = [''tank/my data@a'', ''guid'', ''G3'']"
    "spec_columns (line3 ''tank/my stuff@b'' ''guid'' ''G4'') = [''tank/my stuff@b'', ''guid'', ''G4'']"
    by (simp_all add: spec_columns_def line3_def)
  have l: "ScanLines (row3 ''tank/my data'' ''guid'' ''G1'' @ row3 ''tank/my stuff'' ''guid'' ''G2'')
      = [line3 ''tank/my data'' ''guid'' ''G1'', line3 ''tank/my stuff'' ''guid'' ''G2'']"
    "ScanLines (row3 ''tank/my data@a'' ''guid'' ''G3'' @ row3 ''tank/my stuff@b'' ''guid'' ''G4'')
      = [line3 ''tank/my data@a'' ''guid'' ''G3'', line3 ''tank/my stuff@b'' ''guid'' ''G4'']"
    by (simp_all add: line_simps)
  have s: "Sscanf3 (line3 ''tank/my data'' ''guid'' ''G1'') = (''tank/my'', ''data'', ''guid'')"
    "Sscanf3 (line3 ''tank/my stuff'' ''guid'' ''G2'') = (''tank/my'', ''stuff'', ''guid'')"
    "Sscanf3 (line3 ''tank/my data@a'' ''guid'' ''G3'') = (''tank/my'', ''data@a'', ''guid'')"
    "Sscanf3 (line3 ''tank/my stuff@b'' ''guid'' ''G4'') = (''tank/my'', ''stuff@b'', ''guid'')"
    by (simp_all add: line3_def scan_simps)
  have f: "fst (ListFilesystems
             (answering (row3 ''tank/my data'' ''guid'' ''G1'' @ row3 ''tank/my stuff'' ''guid'' ''G2''))
             tank [])
       = ([(''tank/my'', \<lparr>Filesystem.Name = ''tank/my'', GUID = [], Origin = [], CreateTxg = 0\<rparr>)],
          None)"
    by (simp add: ListFilesystems_ok
          [of _ _ _ "row3 ''tank/my data'' ''guid'' ''G1'' @ row3 ''tank/my stuff'' ''guid'' ''G2''"]
        answering_def l s newFilesystem_def)
  have n: "fst (ListSnapshots
             (answering (row3 ''tank/my data@a'' ''guid'' ''G3'' @ row3 ''tank/my stuff@b'' ''guid'' ''G4''))
             tank [])
       = ([(''tank/my'', \<lparr>Snapshot.Name = ''tank/my'', GUID = [], CreateTxg = 0\<rparr>)], None)"
    by (simp add: ListSnapshots_ok
          [of _ _ _ "row3 ''tank/my data@a'' ''guid'' ''G3'' @ row3 ''tank/my stuff@b'' ''guid'' ''G4''"]
        answering_def l s newSnapshot_def)
  from c f n show ?thesis by simp
qed

text \<open>
  Claim C6. When \<open>ListSnapshots\<close> succeeds with the map \<open>l\<close> and the loop visits every entry
  of \<open>l\<close> once (in any order), \<open>SnapshotsOf\<close> succeeds and returns the snapshots of \<open>l\<close> whose
  name up to the first \<open>@\<close> is the filesystem's name: each of them once, and nothing
  else. So every snapshot returned is named by the filesystem's name alone or by the
  filesystem's name, an \<open>@\<close> and a suffix, and a snapshot of \<open>l\<close> whose name up to the
  first \<open>@\<close> differs from the filesystem's name is not returned.
\<close>

theorem C6_snapshots_of:
  assumes "ListSnapshots t z calls = ((l, None), after)"
    and "mset (rng l) = mset l"
  shows "\<exists>r. SnapshotsOf rng t z fs calls = ((r, None), after)
     \<and> mset r = filter_mset (\<lambda>ds. SplitAt0 (Snapshot.Name ds) = Filesystem.Name fs)
                   (mset (map snd l))
     \<and> set r = {ds \<in> snd ` set l. SplitAt0 (Snapshot.Name ds) = Filesystem.Name fs}
     \<and> distinct r
     \<and> (\<forall>ds \<in> set r. Snapshot.Name ds = Filesystem.Name fs
           \<or> (\<exists>suffix. Snapshot.Name ds = Filesystem.Name fs @ CHR ''@'' # suffix))"
proof -
  define r where "r = filter (\<lambda>ds. SplitAt0 (Snapshot.Name ds) = Filesystem.Name fs) (map snd (rng l))"
  have res: "SnapshotsOf rng t z fs calls = ((r, None), after)"
    using assms(1) by (simp add: SnapshotsOf_def r_def)
  from assms(1) ListSnapshots_cases [of t calls z] obtain out
    where "(l, None) = scanSnapshots [] (ScanLines out)" by auto
  from scanSnapshots_keyed [OF this] have "distinct (map snd l)" by simp
  moreover have m: "mset (map snd (rng l)) = mset (map snd l)"
    using assms(2) by (metis mset_map)
  ultimately have d: "distinct (map snd (rng l))"
    by (metis mset_eq_imp_distinct_iff)
  have ms: "mset r = filter_mset (\<lambda>ds. SplitAt0 (Snapshot.Name ds) = Filesystem.Name fs)
                   (mset (map snd l))"
    unfolding r_def mset_filter m ..
  have "set (map snd (rng l)) = set (map snd l)"
    using m by (metis set_mset_mset)
  then have st: "set r = {ds \<in> snd ` set l. SplitAt0 (Snapshot.Name ds) = Filesystem.Name fs}"
    by (auto simp: r_def)
  have sh: "\<forall>ds \<in> set r. Snapshot.Name ds = Filesystem.Name fs
           \<or> (\<exists>suffix. Snapshot.Name ds = Filesystem.Name fs @ CHR ''@'' # suffix)"
  proof
    fix ds assume "ds \<in> set r"
    then have "SplitAt0 (Snapshot.Name ds) = Filesystem.Name fs" by (simp add: r_def)
    with SplitAt0_shape [of "Snapshot.Name ds"]
    show "Snapshot.Name ds = Filesystem.Name fs
           \<or> (\<exists>suffix. Snapshot.Name ds = Filesystem.Name fs @ CHR ''@'' # suffix)" by auto
  qed
  from res ms st d sh show ?thesis by (auto simp: r_def)
qed

text \<open>
  Instance of C6 on the pool \<open>pool\<close>, whose snapshots are \<open>pool/f@a\<close>, \<open>pool/f2@b\<close> and
  \<open>pool/f@c\<close>, with the loop visiting the entries last to first: the snapshots of \<open>pool/f\<close>
  are \<open>pool/f@c\<close> and \<open>pool/f@a\<close>; \<open>pool/f2@b\<close> is not among them.
\<close>

theorem C6_snapshots_of_witness:
  "ListSnapshots (answering snapStream) pool [] =
     (([(''pool/f@a'', \<lparr>Snapshot.Name = ''pool/f@a'', GUID = ''1'', CreateTxg = 0\<rparr>),
        (''pool/f2@b'', \<lparr>Snapshot.Name = ''pool/f2@b'', GUID = ''2'', CreateTxg = 0\<rparr>),
        (''pool/f@c'', \<lparr>Snapshot.Name = ''pool/f@c'', GUID = ''3'', CreateTxg = 0\<rparr>)], None),
      [listSnapshotsCmd pool])
   \<and> SnapshotsOf rev (answering snapStream) pool (newFilesystem ''pool/f'') [] =
     (([\<lparr>Snapshot.Name = ''pool/f@c'', GUID = ''3'', CreateTxg = 0\<rparr>,
        \<lparr>Snapshot.Name = ''pool/f@a'', GUID = ''1'', CreateTxg = 0\<rparr>], None),
      [listSnapshotsCmd pool])"
  using C6_snapshots_of [of "answering snapStream" pool "[]"
      "[(''pool/f@a'', \<lparr>Snapshot.Name = ''pool/f@a'', GUID = ''1'', CreateTxg = 0\<rparr>),
        (''pool/f2@b'', \<lparr>Snapshot.Name = ''pool/f2@b'', GUID = ''2'', CreateTxg = 0\<rparr>),
        (''pool/f@c'', \<lparr>Snapshot.Name = ''pool/f@c'', GUID = ''3'', CreateTxg = 0\<rparr>)]"
      "[listSnapshotsCmd pool]" rev "newFilesystem ''pool/f''"]
  by (simp add: ListSnapshots_snapStream SnapshotsOf_def SplitAt0_def newFilesystem_def)

text \<open>
  Claim C7. When \<open>ListFilesystems\<close> succeeds with the map \<open>l\<close> and the loop visits every
  entry of \<open>l\<close> once (in any order), \<open>ClonesOf\<close> succeeds and returns the filesystems of \<open>l\<close>
  whose \<open>Origin\<close> is the snapshot's name: each of them once and nothing else, so the
  length of the result is the number of those filesystems.
\<close>

theorem C7_clones_of:
  assumes "ListFilesystems t z calls = ((l, None), after)"
    and "mset (rng l) = mset l"
  shows "\<exists>r. ClonesOf rng t z s calls = ((r, None), after)
     \<and> mset r = filter_mset (\<lambda>fs. Filesystem.Origin fs = Snapshot.Name s) (mset (map snd l))
     \<and> set r = {fs \<in> snd ` set l. Filesystem.Origin fs = Snapshot.Name s}
     \<and> distinct r
     \<and> length r = card {fs \<in> snd ` set l. Filesystem.Origin fs = Snapshot.Name s}"
proof -
  define r where "r = filter (\<lambda>fs. Filesystem.Origin fs = Snapshot.Name s) (map snd (rng l))"
  have res: "ClonesOf rng t z s calls = ((r, None), after)"
    using assms(1) by (simp add: ClonesOf_def r_def)
  from assms(1) ListFilesystems_cases [of t calls z] obtain out
    where "(l, None) = scanFilesystems [] (ScanLines out)" by auto
  from scanFilesystems_keyed [OF this] have "distinct (map snd l)" by simp
  moreover have m: "mset (map snd (rng l)) = mset (map snd l)"
    using assms(2) by (metis mset_map)
  ultimately have "distinct (map snd (rng l))"
    by (metis mset_eq_imp_distinct_iff)
  then have d: "distinct r" by (simp add: r_def)
  have ms: "mset r = filter_mset (\<lambda>fs. Filesystem.Origin fs = Snapshot.Name s) (mset (map snd l))"
    unfolding r_def mset_filter m ..
  have "set (map snd (rng l)) = set (map snd l)"
    using m by (metis set_mset_mset)
  then have st: "set r = {fs \<in> snd ` set l. Filesystem.Origin fs = Snapshot.Name s}"
    by (auto simp: r_def)
  from d have "length r = card (set r)" by (simp add: distinct_card)
  with res ms st d show ?thesis by auto
qed

text \<open>
  Instance of C7 on the pool \<open>tank\<close>, whose filesystems are \<open>tank/c1\<close> and \<open>tank/c2\<close>, both
  cloned from \<open>tank/a@s\<close>, and \<open>tank/a\<close>: the clones of \<open>tank/a@s\<close> are the two, once each.
\<close>

theorem C7_clones_of_witness:
  "ListFilesystems (answering cloneStream) tank [] =
     (([(''tank/c1'', \<lparr>Filesystem.Name = ''tank/c1'', GUID = [], Origin = ''tank/a@s'', CreateTxg = 0\<rparr>),
        (''tank/a'', \<lparr>Filesystem.Name = ''tank/a'', GUID = [], Origin = ''-'', CreateTxg = 0\<rparr>),
        (''tank/c2'', \<lparr>Filesystem.Name = ''tank/c2'', GUID = ''G2'', Origin = ''tank/a@s'', CreateTxg = 0\<rparr>)],
       None), [listFilesystemsCmd tank])
   \<and> ClonesOf rev (answering cloneStream) tank (newSnapshot ''tank/a@s'') [] =
     (([\<lparr>Filesystem.Name = ''tank/c2'', GUID = ''G2'', Origin = ''tank/a@s'', CreateTxg = 0\<rparr>,
        \<lparr>Filesystem.Name = ''tank/c1'', GUID = [], Origin = ''tank/a@s'', CreateTxg = 0\<rparr>], None),
      [listFilesystemsCmd tank])
   \<and> length (fst (fst (ClonesOf rev (answering cloneStream) tank (newSnapshot ''tank/a@s'') []))) = 2"
  using C7_clones_of [of "answering cloneStream" tank "[]"
      "[(''tank/c1'', \<lparr>Filesystem.Name = ''tank/c1'', GUID = [], Origin = ''tank/a@s'', CreateTxg = 0\<rparr>),
        (''tank/a'', \<lparr>Filesystem.Name = ''tank/a'', GUID = [], Origin = ''-'', CreateTxg = 0\<rparr>),
        (''tank/c2'', \<lparr>Filesystem.Name = ''tank/c2'', GUID = ''G2'', Origin = ''tank/a@s'', CreateTxg = 0\<rparr>)]"
      "[listFilesystemsCmd tank]" rev "newSnapshot ''tank/a@s''"]
  by (simp add: ListFilesystems_cloneStream ClonesOf_def newSnapshot_def)

section \<open>Validation and provisioning\<close>

text \<open>
  Claim C1, as amended. \<open>CreateFilesystem\<close> rejects a request whose name is empty, whose
  \<open>CreateTxg\<close> is not zero or whose name does not begin with the pool's name, and
  \<open>CreateSnapshot\<close> rejects a name that is empty or does not begin with the pool's
  name: the result is the validation error and no command is spawned. Every other
  request spawns a command. The prefix tested is the pool's name alone; no \<open>/\<close> is
  required after it.
\<close>

theorem C1_validation_before_spawn:
  "(Filesystem.Name fs = [] \<or> Filesystem.CreateTxg fs \<noteq> 0
      \<or> \<not> prefix (Zpool.Name z) (Filesystem.Name fs)
    \<longrightarrow> CreateFilesystem t z fs calls =
          ((fs, Some (Errorf ''filesystem %q cannot be created on zpool %q''
                        [Filesystem.Name fs, Zpool.Name z])), calls))
   \<and> (Filesystem.Name fs \<noteq> [] \<and> Filesystem.CreateTxg fs = 0
      \<and> prefix (Zpool.Name z) (Filesystem.Name fs)
    \<longrightarrow> (\<exists>rest. snd (CreateFilesystem t z fs calls) = calls @ createCmd fs # rest))
   \<and> (snapshotName = [] \<or> \<not> prefix (Zpool.Name z) snapshotName
    \<longrightarrow> CreateSnapshot t z snapshotName calls =
          ((zeroSnapshot, Some (Errorf ''snapshot %q cannot be created on zpool %q''
                                  [snapshotName, Zpool.Name z])), calls))
   \<and> (snapshotName \<noteq> [] \<and> prefix (Zpool.Name z) snapshotName
    \<longrightarrow> (\<exists>rest. snd (CreateSnapshot t z snapshotName calls)
                 = calls @ snapshotCmd snapshotName # rest))"
proof -
  have "snd (CreateFilesystem t z fs calls) = calls @ createCmd fs # rest \<Longrightarrow>
    \<exists>rest. snd (CreateFilesystem t z fs calls) = calls @ createCmd fs # rest" for rest
    by blast
  moreover have "snd (CreateSnapshot t z snapshotName calls) = calls @ snapshotCmd snapshotName # rest \<Longrightarrow>
    \<exists>rest. snd (CreateSnapshot t z snapshotName calls) = calls @ snapshotCmd snapshotName # rest" for rest
    by blast
  ultimately show ?thesis
    by (auto simp: CreateFilesystem_calls CreateSnapshot_calls)
      (auto simp: CreateFilesystem_def CreateSnapshot_def HasPrefix_def)
qed

text \<open>
  Instances of C1 on the pool \<open>tank\<close>: the filesystem \<open>other/x\<close> and the empty snapshot
  name are rejected with nothing spawned; the filesystem \<open>tank/a\<close> and the snapshot
  \<open>tank/a@s\<close> reach the tool.
\<close>

theorem C1_validation_before_spawn_witness:
  "\<not> prefix (Zpool.Name tank) (Filesystem.Name (newFilesystem ''other/x''))
   \<and> CreateFilesystem failing tank (newFilesystem ''other/x'') [] =
       ((newFilesystem ''other/x'',
         Some (Errorf ''filesystem %q cannot be created on zpool %q'' [''other/x'', ''tank''])), [])
   \<and> prefix (Zpool.Name tank) ''tank/a@s''
   \<and> (\<exists>rest. snd (CreateSnapshot failing tank ''tank/a@s'' []) = snapshotCmd ''tank/a@s'' # rest)
   \<and> prefix (Zpool.Name tank) (Filesystem.Name (newFilesystem ''tank/a''))
   \<and> (\<exists>rest. snd (CreateFilesystem failing tank (newFilesystem ''tank/a'') [])
         = createCmd (newFilesystem ''tank/a'') # rest)
   \<and> CreateSnapshot failing tank [] [] =
       ((zeroSnapshot,
         Some (Errorf ''snapshot %q cannot be created on zpool %q'' [[], ''tank''])), [])"
  using C1_validation_before_spawn [of "newFilesystem ''other/x''" tank failing "[]" "''tank/a@s''"]
    C1_validation_before_spawn [of "newFilesystem ''tank/a''" tank failing "[]" "[]"]
  by (simp add: newFilesystem_def tank_def)

text \<open>
  Claim C1 as stated fails: on the pool \<open>tank\<close> the names \<open>tank2/x\<close> and \<open>tank2/x@s\<close> do not
  begin with \<open>tank/\<close>, yet neither is rejected by the validation: the \<open>create\<close> and the
  \<open>snapshot\<close> command are spawned, and the error returned is the tool's failure.
\<close>

theorem C1_slash_not_required_counterexample:
  "\<not> prefix (Zpool.Name tank @ ''/'') ''tank2/x''
   \<and> CreateFilesystem failing tank (newFilesystem ''tank2/x'') [] =
       ((newFilesystem ''tank2/x'',
         Some (Wrapf (ExitError ''exit status 1'') ''unable to create filesystem %q'' [''tank2/x''])),
        [Command zfsPath [''create'', ''tank2/x'']])
   \<and> \<not> prefix (Zpool.Name tank @ ''/'') ''tank2/x@s''
   \<and> CreateSnapshot failing tank ''tank2/x@s'' [] =
       ((zeroSnapshot,
         Some (Wrapf (ExitError ''exit status 1'') ''unable to create snapshot %q'' [''tank2/x@s''])),
        [Command zfsPath [''snapshot'', ''tank2/x@s'']])"
  by (simp add: CreateFilesystem_def CreateSnapshot_def HasPrefix_def Output_def Let_def
      newFilesystem_def tank_def failing_def)

text \<open>
  Claim C4. A request that passes the validation of \<open>CreateFilesystem\<close> spawns, first,
  \<open>zfs create name\<close> when its origin is empty or \<open>-\<close>, and \<open>zfs clone origin name\<close>
  otherwise; the only other command is the query \<open>GetFilesystem\<close> makes when that
  command succeeded.
\<close>

theorem C4_create_or_clone:
  "Filesystem.Name fs \<noteq> [] \<and> Filesystem.CreateTxg fs = 0
     \<and> prefix (Zpool.Name z) (Filesystem.Name fs)
   \<longrightarrow> snd (CreateFilesystem t z fs calls) =
        calls @ (if Filesystem.Origin fs = [] \<or> Filesystem.Origin fs = ''-''
                 then Command zfsPath [''create'', Filesystem.Name fs]
                 else Command zfsPath [''clone'', Filesystem.Origin fs, Filesystem.Name fs])
              # (case t calls (createCmd fs) of
                   Inl err \<Rightarrow> []
                 | Inr out \<Rightarrow> [getFilesystemCmd (Filesystem.Name fs)])"
  by (simp add: CreateFilesystem_calls) (simp add: createCmd_def)

text \<open>Instances of C4: an origin of \<open>-\<close> gives \<open>create\<close>, an origin that names a snapshot
  gives \<open>clone\<close> with the snapshot as source and the name as target.\<close>

theorem C4_create_or_clone_witness:
  "prefix (Zpool.Name tank) ''tank/b''
   \<and> snd (CreateFilesystem failing tank
            \<lparr>Filesystem.Name = ''tank/b'', GUID = [], Origin = ''-'', CreateTxg = 0\<rparr> [])
       = [Command zfsPath [''create'', ''tank/b'']]
   \<and> snd (CreateFilesystem failing tank
            \<lparr>Filesystem.Name = ''tank/b'', GUID = [], Origin = ''tank/a@s'', CreateTxg = 0\<rparr> [])
       = [Command zfsPath [''clone'', ''tank/a@s'', ''tank/b'']]"
  using C4_create_or_clone [of "\<lparr>Filesystem.Name = ''tank/b'', GUID = [], Origin = ''-'', CreateTxg = 0\<rparr>"
      tank failing "[]"]
    C4_create_or_clone [of "\<lparr>Filesystem.Name = ''tank/b'', GUID = [], Origin = ''tank/a@s'', CreateTxg = 0\<rparr>"
      tank failing "[]"]
  by (simp add: tank_def failing_def)

text \<open>
  Claim C5. Let a request pass the validation and the \<open>create\<close>, \<open>clone\<close> or \<open>snapshot\<close>
  command succeed. Then the operation runs the get operation on the same name, after
  the command, and returns what it returns when it succeeds; the output of the
  creating command does not enter the result: the result is the same for a tool that
  prints anything else (\<open>out'\<close>) on that command. When the get operation fails with
  \<open>err\<close>, the operation returns \<open>err\<close> wrapped as "unable to retrieve ... after
  creation", which is no error of the form returned when the creating command
  fails ("unable to create ...").
\<close>

theorem C5_confirmation_fetch:
  "(Filesystem.Name fs \<noteq> [] \<and> Filesystem.CreateTxg fs = 0
      \<and> prefix (Zpool.Name z) (Filesystem.Name fs)
    \<longrightarrow>
      (t calls (createCmd fs) = Inl cerr
        \<longrightarrow> snd (fst (CreateFilesystem t z fs calls)) =
              Some (Wrapf cerr ''unable to create filesystem %q'' [Filesystem.Name fs]))
      \<and> (t calls (createCmd fs) = Inr out
          \<and> GetFilesystem t z (Filesystem.Name fs) (calls @ [createCmd fs]) = ((n, None), after)
        \<longrightarrow> CreateFilesystem t z fs calls = ((n, None), after)
            \<and> after = calls @ [createCmd fs, getFilesystemCmd (Filesystem.Name fs)])
      \<and> (t calls (createCmd fs) = Inr out
          \<and> GetFilesystem t z (Filesystem.Name fs) (calls @ [createCmd fs]) = ((n, Some err), after)
        \<longrightarrow> snd (fst (CreateFilesystem t z fs calls)) =
              Some (Wrapf err ''unable to retrieve filesystem %q after creation''
                      [Filesystem.Name fs])
            \<and> (\<forall>e a. snd (fst (CreateFilesystem t z fs calls))
                      \<noteq> Some (Wrapf e ''unable to create filesystem %q'' a)))
      \<and> (t calls (createCmd fs) = Inr out
        \<longrightarrow> CreateFilesystem (t(calls := (t calls)(createCmd fs := Inr out'))) z fs calls
            = CreateFilesystem t z fs calls))
   \<and> (snapshotName \<noteq> [] \<and> prefix (Zpool.Name z) snapshotName
    \<longrightarrow>
      (t calls (snapshotCmd snapshotName) = Inl cerr
        \<longrightarrow> snd (fst (CreateSnapshot t z snapshotName calls)) =
              Some (Wrapf cerr ''unable to create snapshot %q'' [snapshotName]))
      \<and> (t calls (snapshotCmd snapshotName) = Inr out
          \<and> GetSnapshot t z snapshotName (calls @ [snapshotCmd snapshotName]) = ((snap, None), after')
        \<longrightarrow> CreateSnapshot t z snapshotName calls = ((snap, None), after')
            \<and> after' = calls @ [snapshotCmd snapshotName, getSnapshotCmd snapshotName])
      \<and> (t calls (snapshotCmd snapshotName) = Inr out
          \<and> GetSnapshot t z snapshotName (calls @ [snapshotCmd snapshotName]) = ((snap, Some err), after')
        \<longrightarrow> snd (fst (CreateSnapshot t z snapshotName calls)) =
              Some (Wrapf err ''unable to retrieve snapshot %q after creation''
                      [Snapshot.Name snap])
            \<and> (\<forall>e a. snd (fst (CreateSnapshot t z snapshotName calls))
                      \<noteq> Some (Wrapf e ''unable to create snapshot %q'' a)))
      \<and> (t calls (snapshotCmd snapshotName) = Inr out
        \<longrightarrow> CreateSnapshot (t(calls := (t calls)(snapshotCmd snapshotName := Inr out'))) z
              snapshotName calls
            = CreateSnapshot t z snapshotName calls))"
proof -
  have f: "after = calls @ [createCmd fs, getFilesystemCmd (Filesystem.Name fs)]"
    if "prefix (Zpool.Name z) (Filesystem.Name fs)"
      "GetFilesystem t z (Filesystem.Name fs) (calls @ [createCmd fs]) = ((n, e), after)" for e
    using GetFilesystem_calls [of t z "Filesystem.Name fs" "calls @ [createCmd fs]"] that by simp
  have s: "after' = calls @ [snapshotCmd snapshotName, getSnapshotCmd snapshotName]"
    if "prefix (Zpool.Name z) snapshotName"
      "GetSnapshot t z snapshotName (calls @ [snapshotCmd snapshotName]) = ((snap, e), after')" for e
    using GetSnapshot_calls [of t z snapshotName "calls @ [snapshotCmd snapshotName]"] that by simp
  have gf: "GetFilesystem (t(calls := h)) z name (calls @ [cmd]) = GetFilesystem t z name (calls @ [cmd])"
    for h name cmd
    by (simp add: GetFilesystem_def Output_def)
  have gs: "GetSnapshot (t(calls := h)) z name (calls @ [cmd]) = GetSnapshot t z name (calls @ [cmd])"
    for h name cmd
    by (simp add: GetSnapshot_def Output_def)
  show ?thesis
    using f s by (simp add: CreateFilesystem_valid CreateSnapshot_valid gf gs)
qed

text \<open>
  Instances of C5 on the pool \<open>tank\<close>. With a tool that answers the query, the record
  returned for \<open>tank/a\<close> is the one parsed from the answer (its \<open>GUID\<close>, \<open>Origin\<close> and
  \<open>CreateTxg\<close> are not those of the request). With a tool that runs \<open>create\<close> and
  \<open>snapshot\<close> and fails every \<open>get\<close>, the error is the retrieval error; with a tool
  that fails everything, the creation error. A tool that prints \<open>created\<close> on \<open>create\<close>
  gives the same record.
\<close>

theorem C5_confirmation_fetch_witness:
  "CreateFilesystem (answering fsReply) tank (newFilesystem ''tank/a'') [] =
     ((\<lparr>Filesystem.Name = ''tank/a'', GUID = ''G7'', Origin = ''-'', CreateTxg = 9\<rparr>, None),
      [createCmd (newFilesystem ''tank/a''), getFilesystemCmd ''tank/a''])
   \<and> snd (fst (CreateFilesystem failingGet tank (newFilesystem ''tank/a'') [])) =
       Some (Wrapf (Wrapf (ExitError ''exit status 1'') ''filesystem %q not found'' [''tank/a''])
               ''unable to retrieve filesystem %q after creation'' [''tank/a''])
   \<and> snd (fst (CreateFilesystem failing tank (newFilesystem ''tank/a'') [])) =
       Some (Wrapf (ExitError ''exit status 1'') ''unable to create filesystem %q'' [''tank/a''])
   \<and> CreateFilesystem
         ((answering fsReply)
            ([] := ((answering fsReply) [])(createCmd (newFilesystem ''tank/a'') := Inr ''created'')))
         tank (newFilesystem ''tank/a'') [] =
     ((\<lparr>Filesystem.Name = ''tank/a'', GUID = ''G7'', Origin = ''-'', CreateTxg = 9\<rparr>, None),
      [createCmd (newFilesystem ''tank/a''), getFilesystemCmd ''tank/a''])
   \<and> CreateSnapshot (answering snapReply) tank ''tank/a@s'' [] =
       ((\<lparr>Snapshot.Name = ''tank/a@s'', GUID = ''G8'', CreateTxg = 11\<rparr>, None),
        [snapshotCmd ''tank/a@s'', getSnapshotCmd ''tank/a@s''])
   \<and> snd (fst (CreateSnapshot failingGet tank ''tank/a@s'' [])) =
       Some (Wrapf (Errorf ''snapshot %q not found'' [''tank/a@s''])
               ''unable to retrieve snapshot %q after creation'' [[]])
   \<and> snd (fst (CreateSnapshot failing tank ''tank/a@s'' [])) =
       Some (Wrapf (ExitError ''exit status 1'') ''unable to create snapshot %q'' [''tank/a@s''])"
proof -
  have v: "Filesystem.Name (newFilesystem ''tank/a'') = ''tank/a''"
    "Filesystem.CreateTxg (newFilesystem ''tank/a'') = 0"
    "prefix (Zpool.Name tank) ''tank/a''" "prefix (Zpool.Name tank) ''tank/a@s''"
    by (simp_all add: newFilesystem_def tank_def)
  have c: "failingGet [] (createCmd (newFilesystem ''tank/a'')) = Inr []"
    "failingGet [] (snapshotCmd ''tank/a@s'') = Inr []"
    by (simp_all add: failingGet_def createCmd_def snapshotCmd_def newFilesystem_def Command_def
        zfsPath_def)
  note ok = C5_confirmation_fetch [where t = "answering fsReply" and z = tank
      and fs = "newFilesystem ''tank/a''" and calls = "[]" and out = fsReply
      and n = "\<lparr>Filesystem.Name = ''tank/a'', GUID = ''G7'', Origin = ''-'', CreateTxg = 9\<rparr>"
      and after = "[createCmd (newFilesystem ''tank/a''), getFilesystemCmd ''tank/a'']"
      and snapshotName = "''tank/a@s''"]
  note same = C5_confirmation_fetch [where t = "answering fsReply" and z = tank
      and fs = "newFilesystem ''tank/a''" and calls = "[]" and out = fsReply
      and out' = "''created''" and snapshotName = "''tank/a@s''"]
  note ok' = C5_confirmation_fetch [where t = "answering snapReply" and z = tank
      and fs = "newFilesystem ''tank/a''" and calls = "[]" and out = snapReply
      and snapshotName = "''tank/a@s''"
      and snap = "\<lparr>Snapshot.Name = ''tank/a@s'', GUID = ''G8'', CreateTxg = 11\<rparr>"
      and after' = "[snapshotCmd ''tank/a@s'', getSnapshotCmd ''tank/a@s'']"]
  note nofetch = C5_confirmation_fetch [where t = failingGet and z = tank
      and fs = "newFilesystem ''tank/a''" and calls = "[]" and out = "[]"
      and n = zeroFilesystem
      and err = "Wrapf (ExitError ''exit status 1'') ''filesystem %q not found'' [''tank/a'']"
      and after = "[createCmd (newFilesystem ''tank/a''), getFilesystemCmd ''tank/a'']"]
  note nofetch' = C5_confirmation_fetch [where t = failingGet and z = tank
      and fs = "newFilesystem ''tank/a''" and calls = "[]" and out = "[]"
      and snapshotName = "''tank/a@s''" and snap = zeroSnapshot
      and err = "Errorf ''snapshot %q not found'' [''tank/a@s'']"
      and after' = "[snapshotCmd ''tank/a@s'', getSnapshotCmd ''tank/a@s'']"]
  note nocreate = C5_confirmation_fetch [where t = failing and z = tank
      and fs = "newFilesystem ''tank/a''" and calls = "[]"
      and cerr = "ExitError ''exit status 1''" and snapshotName = "''tank/a@s''"]
  have 1: "CreateFilesystem (answering fsReply) tank (newFilesystem ''tank/a'') [] =
     ((\<lparr>Filesystem.Name = ''tank/a'', GUID = ''G7'', Origin = ''-'', CreateTxg = 9\<rparr>, None),
      [createCmd (newFilesystem ''tank/a''), getFilesystemCmd ''tank/a''])"
    using ok v GetFilesystem_fsReply [of "[createCmd (newFilesystem ''tank/a'')]"]
    by (simp add: answering_def)
  have indep: "CreateFilesystem
         ((answering fsReply)
            ([] := ((answering fsReply) [])(createCmd (newFilesystem ''tank/a'') := Inr ''created'')))
         tank (newFilesystem ''tank/a'') [] =
     ((\<lparr>Filesystem.Name = ''tank/a'', GUID = ''G7'', Origin = ''-'', CreateTxg = 9\<rparr>, None),
      [createCmd (newFilesystem ''tank/a''), getFilesystemCmd ''tank/a''])"
    using same v 1 by (simp add: answering_def)
  have 2: "snd (fst (CreateFilesystem failingGet tank (newFilesystem ''tank/a'') [])) =
       Some (Wrapf (Wrapf (ExitError ''exit status 1'') ''filesystem %q not found'' [''tank/a''])
               ''unable to retrieve filesystem %q after creation'' [''tank/a''])"
    using nofetch v c GetFilesystem_failingGet [of "[createCmd (newFilesystem ''tank/a'')]"]
    by simp
  have 3: "snd (fst (CreateFilesystem failing tank (newFilesystem ''tank/a'') [])) =
       Some (Wrapf (ExitError ''exit status 1'') ''unable to create filesystem %q'' [''tank/a''])"
    using nocreate v by (simp add: failing_def)
  have 4: "CreateSnapshot (answering snapReply) tank ''tank/a@s'' [] =
       ((\<lparr>Snapshot.Name = ''tank/a@s'', GUID = ''G8'', CreateTxg = 11\<rparr>, None),
        [snapshotCmd ''tank/a@s'', getSnapshotCmd ''tank/a@s''])"
    using ok' v GetSnapshot_snapReply [of "[snapshotCmd ''tank/a@s'']"]
    by (simp add: answering_def)
  have 5: "snd (fst (CreateSnapshot failingGet tank ''tank/a@s'' [])) =
       Some (Wrapf (Errorf ''snapshot %q not found'' [''tank/a@s''])
               ''unable to retrieve snapshot %q after creation'' [[]])"
    using nofetch' v c GetSnapshot_failingGet [of "[snapshotCmd ''tank/a@s'']"]
    by (simp add: zeroSnapshot_def)
  have 6: "snd (fst (CreateSnapshot failing tank ''tank/a@s'' [])) =
       Some (Wrapf (ExitError ''exit status 1'') ''unable to create snapshot %q'' [''tank/a@s''])"
    using nocreate v by (simp add: failing_def)
  from 1 indep 2 3 4 5 6 show ?thesis by blast
qed

section \<open>Existence by name\<close>

text \<open>
  Claim C8. \<open>ExistsByName\<close> returns false and spawns nothing for the empty name and for
  a name that does not begin with the pool's name. For every other name it spawns the
  probe once and returns true exactly when the probe did not fail. Its result is a
  boolean: no error reaches the caller.
\<close>

theorem C8_exists_by_name:
  "(name = [] \<or> \<not> prefix (Zpool.Name z) name \<longrightarrow> ExistsByName t z name calls = (False, calls))
   \<and> (name \<noteq> [] \<and> prefix (Zpool.Name z) name \<longrightarrow>
        ExistsByName t z name calls = (\<not> isl (t calls (probeCmd name)), calls @ [probeCmd name]))"
  by (auto simp: ExistsByName_def HasPrefix_def Run_def probeCmd_def split: sum.splits)

text \<open>Instances of C8 on the pool \<open>tank\<close>: the empty name, the name \<open>bogus/bogus\<close> of the
  package's test, a name the probe finds and a name the probe fails on.\<close>

theorem C8_exists_by_name_witness:
  "ExistsByName (answering []) tank [] [] = (False, [])
   \<and> \<not> prefix (Zpool.Name tank) ''bogus/bogus''
   \<and> ExistsByName (answering []) tank ''bogus/bogus'' [] = (False, [])
   \<and> prefix (Zpool.Name tank) ''tank/a''
   \<and> ExistsByName (answering []) tank ''tank/a'' [] = (True, [probeCmd ''tank/a''])
   \<and> ExistsByName failing tank ''tank/a'' [] = (False, [probeCmd ''tank/a''])"
  using C8_exists_by_name [of "[]" tank "answering []" "[]"]
    C8_exists_by_name [of "''bogus/bogus''" tank "answering []" "[]"]
    C8_exists_by_name [of "''tank/a''" tank "answering []" "[]"]
    C8_exists_by_name [of "''tank/a''" tank failing "[]"]
  by (simp add: tank_def answering_def failing_def)

section \<open>The record returned with an error\<close>

text \<open>
  Claim C10. Whenever \<open>CreateFilesystem\<close> returns an error, the record it returns is the
  record it was given.
\<close>

theorem C10_error_returns_input:
  "snd (fst (CreateFilesystem t z fs calls)) \<noteq> None
   \<longrightarrow> fst (fst (CreateFilesystem t z fs calls)) = fs"
proof (cases "Filesystem.Name fs \<noteq> [] \<and> Filesystem.CreateTxg fs = 0
    \<and> prefix (Zpool.Name z) (Filesystem.Name fs)")
  case True
  obtain n e c2 where "GetFilesystem t z (Filesystem.Name fs) (calls @ [createCmd fs]) = ((n, e), c2)"
    by (metis surj_pair)
  with True show ?thesis
    by (cases "t calls (createCmd fs)"; cases e) (simp_all add: CreateFilesystem_valid)
next
  case False
  then show ?thesis by (auto simp: CreateFilesystem_def HasPrefix_def)
qed

text \<open>
  Instances of C10, one for each way to fail: the validation (a client-supplied
  \<open>CreateTxg\<close>), the \<open>create\<close> command, and the fetch after a successful \<open>create\<close>.
\<close>

theorem C10_error_returns_input_witness:
  "snd (fst (CreateFilesystem failing tank
               \<lparr>Filesystem.Name = ''tank/a'', GUID = ''g'', Origin = [], CreateTxg = 5\<rparr> [])) \<noteq> None
   \<and> fst (fst (CreateFilesystem failing tank
               \<lparr>Filesystem.Name = ''tank/a'', GUID = ''g'', Origin = [], CreateTxg = 5\<rparr> []))
       = \<lparr>Filesystem.Name = ''tank/a'', GUID = ''g'', Origin = [], CreateTxg = 5\<rparr>
   \<and> snd (fst (CreateFilesystem failing tank
               \<lparr>Filesystem.Name = ''tank/a'', GUID = ''g'', Origin = [], CreateTxg = 0\<rparr> [])) \<noteq> None
   \<and> fst (fst (CreateFilesystem failing tank
               \<lparr>Filesystem.Name = ''tank/a'', GUID = ''g'', Origin = [], CreateTxg = 0\<rparr> []))
       = \<lparr>Filesystem.Name = ''tank/a'', GUID = ''g'', Origin = [], CreateTxg = 0\<rparr>
   \<and> snd (fst (CreateFilesystem failingGet tank
               \<lparr>Filesystem.Name = ''tank/a'', GUID = ''g'', Origin = [], CreateTxg = 0\<rparr> [])) \<noteq> None
   \<and> fst (fst (CreateFilesystem failingGet tank
               \<lparr>Filesystem.Name = ''tank/a'', GUID = ''g'', Origin = [], CreateTxg = 0\<rparr> []))
       = \<lparr>Filesystem.Name = ''tank/a'', GUID = ''g'', Origin = [], CreateTxg = 0\<rparr>"
proof -
  have 1: "snd (fst (CreateFilesystem failing tank
               \<lparr>Filesystem.Name = ''tank/a'', GUID = ''g'', Origin = [], CreateTxg = 5\<rparr> [])) \<noteq> None"
    by (simp add: CreateFilesystem_def)
  have 2: "snd (fst (CreateFilesystem failing tank
               \<lparr>Filesystem.Name = ''tank/a'', GUID = ''g'', Origin = [], CreateTxg = 0\<rparr> [])) \<noteq> None"
    by (simp add: CreateFilesystem_valid tank_def failing_def)
  have 3: "snd (fst (CreateFilesystem failingGet tank
               \<lparr>Filesystem.Name = ''tank/a'', GUID = ''g'', Origin = [], CreateTxg = 0\<rparr> [])) \<noteq> None"
    using GetFilesystem_failingGet
    by (simp add: CreateFilesystem_valid tank_def failingGet_def createCmd_def Command_def
        zfsPath_def)
  from 1 2 3 C10_error_returns_input [of failing tank
      "\<lparr>Filesystem.Name = ''tank/a'', GUID = ''g'', Origin = [], CreateTxg = 5\<rparr>" "[]"]
    C10_error_returns_input [of failing tank
      "\<lparr>Filesystem.Name = ''tank/a'', GUID = ''g'', Origin = [], CreateTxg = 0\<rparr>" "[]"]
    C10_error_returns_input [of failingGet tank
      "\<lparr>Filesystem.Name = ''tank/a'', GUID = ''g'', Origin = [], CreateTxg = 0\<rparr>" "[]"]
  show ?thesis by blast
qed

end
